theory Spec2Isabelle
  imports Complex_Main "HOL-Library.Sublist"
begin

section \<open>Python values and string helpers\<close>

text \<open>
  A Python string is the list of its Unicode code points, each a natural number;
  \<open>len\<close>, slices and comparisons of the source work on code points, and so do those
  of the model. The texts written in the source are given by \<open>py\<close>, which maps each
  character of a literal of the theory to its code point.
\<close>

type_synonym pystr = "nat list"

definition py :: "string \<Rightarrow> pystr" where
  "py s = map of_char s"

text \<open>
  \<open>str.strip()\<close> and \<open>str.split()\<close> without arguments remove, respectively split at,
  the characters for which \<open>str.isspace\<close> holds. These are TAB, LF, VT, FF, CR, FS, GS,
  RS, US and the space; NEL (U+0085) and the no-break space (U+00A0); the Ogham space
  mark (U+1680); the spaces U+2000 to U+200A; the line and paragraph separators
  (U+2028, U+2029); the narrow no-break space (U+202F), the medium mathematical space
  (U+205F) and the ideographic space (U+3000).
\<close>

definition py_isspace :: "nat \<Rightarrow> bool" where
  "py_isspace c =
     (c \<in> set [0x09, 0x0A, 0x0B, 0x0C, 0x0D, 0x1C, 0x1D, 0x1E, 0x1F, 0x20, 0x85, 0xA0,
                0x1680, 0x2028, 0x2029, 0x202F, 0x205F, 0x3000] \<or>
      (0x2000 \<le> c \<and> c \<le> 0x200A))"

definition lstrip :: "pystr \<Rightarrow> pystr" where
  "lstrip s = dropWhile py_isspace s"

definition rstrip :: "pystr \<Rightarrow> pystr" where
  "rstrip s = rev (dropWhile py_isspace (rev s))"

definition strip :: "pystr \<Rightarrow> pystr" where
  "strip s = rstrip (lstrip s)"

text \<open>\<open>text.split()\<close>: the maximal runs of non-space characters, in order.\<close>

fun split_from :: "pystr \<Rightarrow> pystr \<Rightarrow> pystr list" where
  "split_from w [] = (if w = [] then [] else [w])"
| "split_from w (c # cs) =
     (if py_isspace c
      then (if w = [] then split_from [] cs else w # split_from [] cs)
      else split_from (w @ [c]) cs)"

definition py_split :: "pystr \<Rightarrow> pystr list" where
  "py_split s = split_from [] s"

text \<open>\<open>sep.join(xs)\<close> for a list of strings.\<close>

fun py_join :: "pystr \<Rightarrow> pystr list \<Rightarrow> pystr" where
  "py_join sep [] = []"
| "py_join sep [x] = x"
| "py_join sep (x # y # ys) = x @ sep @ py_join sep (y # ys)"

text \<open>Decimal rendering of integers, as \<open>str(n)\<close> and the f-string \<open>{n}\<close> give it.\<close>

definition digit_char :: "nat \<Rightarrow> nat" where
  "digit_char d = py ''0123456789'' ! d"

function str_nat :: "nat \<Rightarrow> pystr" where
  "str_nat n = (if n < 10 then [digit_char n] else str_nat (n div 10) @ [digit_char (n mod 10)])"
  by pat_completeness auto
termination
  by (relation "measure (\<lambda>n. n)") auto

declare str_nat.simps [simp del]

definition str_int :: "int \<Rightarrow> pystr" where
  "str_int i = (if i < 0 then 0x2D # str_nat (nat (- i)) else str_nat (nat i))"

section \<open>Offline ingestion: word chunking (scripts/create-embeddings.py)\<close>

definition CHUNK_SIZE :: nat where
  "CHUNK_SIZE = 220"

definition CHUNK_OVERLAP :: nat where
  "CHUNK_OVERLAP = 40"

text \<open>
  The body of \<open>chunk_text\<close> after \<open>words = text.split()\<close>: the loop variable \<open>i\<close>
  and the list \<open>chunks\<close> built so far are the arguments. A Python slice
  \<open>words[i:i + CHUNK_SIZE]\<close> stops at the end of the list, as \<open>take\<close> after \<open>drop\<close> does.
\<close>

function chunk_loop :: "pystr list \<Rightarrow> nat \<Rightarrow> pystr list \<Rightarrow> pystr list" where
  "chunk_loop words i chunks =
     (if i < length words
      then chunk_loop words (i + (CHUNK_SIZE - CHUNK_OVERLAP))
             (chunks @ [py_join (py '' '') (take CHUNK_SIZE (drop i words))])
      else chunks)"
  by pat_completeness auto
termination
  by (relation "measure (\<lambda>(words, i, chunks). length words - i)")
     (auto simp: CHUNK_SIZE_def CHUNK_OVERLAP_def)

declare chunk_loop.simps [simp del]

definition chunk_text :: "pystr \<Rightarrow> pystr list" where
  "chunk_text txt = chunk_loop (py_split txt) 0 []"


section \<open>Values exchanged with the remote services\<close>

text \<open>
  The bodies of the HTTP responses, the payloads stored in the vector index and the
  contents of \<open>embedding_cache.json\<close> are JSON values. A JSON object is kept as the
  list of its members (with distinct keys, as in a parsed object), read with \<open>map_of\<close>.
  Python's \<open>None\<close> is \<open>JNull\<close>. No
  arithmetic is done on the numbers: they are only stored, compared with zero (truth
  value) and passed on.
\<close>

datatype json =
    JNull
  | JBool bool
  | JInt int
  | JFloat real
  | JStr pystr
  | JArr "json list"
  | JObj "(pystr \<times> json) list"

text \<open>The truth value Python gives a value in \<open>if v:\<close>, \<open>not v\<close> and \<open>a or b\<close>.\<close>

fun truthy :: "json \<Rightarrow> bool" where
  "truthy JNull = False"
| "truthy (JBool b) = b"
| "truthy (JInt i) = (i \<noteq> 0)"
| "truthy (JFloat x) = (x \<noteq> 0)"
| "truthy (JStr s) = (s \<noteq> [])"
| "truthy (JArr xs) = (xs \<noteq> [])"
| "truthy (JObj kv) = (kv \<noteq> [])"

text \<open>\<open>d.get(k)\<close> and \<open>d.get(k, default)\<close> on a dictionary.\<close>

definition dict_get :: "(pystr \<times> json) list \<Rightarrow> pystr \<Rightarrow> json" where
  "dict_get kv k = (case map_of kv k of None \<Rightarrow> JNull | Some v \<Rightarrow> v)"

definition dict_get_default :: "(pystr \<times> json) list \<Rightarrow> pystr \<Rightarrow> json \<Rightarrow> json" where
  "dict_get_default kv k d = (case map_of kv k of None \<Rightarrow> d | Some v \<Rightarrow> v)"

text \<open>The exceptions the modelled code can raise, and what reaches the HTTP layer.\<close>

datatype pyexc = TypeError | AttributeError | KeyError | JSONDecodeError | ValidationError

datatype http_error = HTTPException nat pystr | Unhandled pyexc

text \<open>
  The status line of a handler's outcome: a returned response is sent with 200, an
  \<open>HTTPException\<close> with its own code, and the framework answers any other exception
  with 500.
\<close>

fun status_code :: "http_error + 'a \<Rightarrow> nat" where
  "status_code (Inr r) = 200"
| "status_code (Inl (HTTPException code detail)) = code"
| "status_code (Inl (Unhandled e)) = 500"

text \<open>
  \<open>k in j\<close> for a string \<open>k\<close>: a key of a dictionary, an element of a list, a
  substring of a string; any other value is not iterable.
\<close>

fun py_in :: "pystr \<Rightarrow> json \<Rightarrow> pyexc + bool" where
  "py_in k (JObj kv) = Inr (k \<in> set (map fst kv))"
| "py_in k (JArr xs) = Inr (JStr k \<in> set xs)"
| "py_in k (JStr s) = Inr (sublist k s)"
| "py_in k JNull = Inl TypeError"
| "py_in k (JBool b) = Inl TypeError"
| "py_in k (JInt i) = Inl TypeError"
| "py_in k (JFloat x) = Inl TypeError"

text \<open>\<open>j[k]\<close> for a string \<open>k\<close>.\<close>

fun py_getitem :: "json \<Rightarrow> pystr \<Rightarrow> pyexc + json" where
  "py_getitem (JObj kv) k = (case map_of kv k of None \<Rightarrow> Inl KeyError | Some v \<Rightarrow> Inr v)"
| "py_getitem JNull k = Inl TypeError"
| "py_getitem (JBool b) k = Inl TypeError"
| "py_getitem (JInt i) k = Inl TypeError"
| "py_getitem (JFloat x) k = Inl TypeError"
| "py_getitem (JStr s) k = Inl TypeError"
| "py_getitem (JArr xs) k = Inl TypeError"

text \<open>
  \<open>sep.join(parts)\<close> where the parts were collected from a response: it raises
  \<open>TypeError\<close> unless every part is a string.
\<close>

fun as_str :: "json \<Rightarrow> pystr option" where
  "as_str (JStr s) = Some s"
| "as_str JNull = None"
| "as_str (JBool b) = None"
| "as_str (JInt i) = None"
| "as_str (JFloat x) = None"
| "as_str (JArr xs) = None"
| "as_str (JObj kv) = None"

definition str_join :: "pystr \<Rightarrow> json list \<Rightarrow> pyexc + pystr" where
  "str_join sep vs =
     (case those (map as_str vs) of None \<Rightarrow> Inl TypeError | Some ss \<Rightarrow> Inr (py_join sep ss))"

text \<open>
  Two functions of the Python runtime are parameters of the model: \<open>json.dumps\<close> with
  its default arguments, and \<open>repr\<close> on floats, lists and dictionaries. \<open>str(v)\<close>, which
  an f-string applies to \<open>{v}\<close>, is the string itself for a string and is fixed for
  \<open>None\<close>, booleans and integers. The third parameter is the one point on which the
  releases of pydantic differ for the models of this program: given a number or a
  boolean for a field declared \<open>str\<close>, version 1 stores \<open>str(v)\<close> and version 2 raises
  \<open>ValidationError\<close>; the repository does not fix the release.
\<close>

record pylib =
  json_dumps :: "json \<Rightarrow> pystr"
  py_repr :: "json \<Rightarrow> pystr"
  str_from_number :: bool

fun py_str :: "pylib \<Rightarrow> json \<Rightarrow> pystr" where
  "py_str lib (JStr s) = s"
| "py_str lib JNull = py ''None''"
| "py_str lib (JBool b) = (if b then py ''True'' else py ''False'')"
| "py_str lib (JInt i) = str_int i"
| "py_str lib (JFloat x) = py_repr lib (JFloat x)"
| "py_str lib (JArr xs) = py_repr lib (JArr xs)"
| "py_str lib (JObj kv) = py_repr lib (JObj kv)"

text \<open>
  The validation of a value passed for a field declared \<open>str\<close>: \<open>None\<close> when pydantic
  raises \<open>ValidationError\<close>. A string is kept; \<open>None\<close>, a list and a dictionary are refused.
\<close>

fun pydantic_str :: "pylib \<Rightarrow> json \<Rightarrow> pystr option" where
  "pydantic_str lib (JStr s) = Some s"
| "pydantic_str lib JNull = None"
| "pydantic_str lib (JBool b) = (if str_from_number lib then Some (py_str lib (JBool b)) else None)"
| "pydantic_str lib (JInt i) = (if str_from_number lib then Some (py_str lib (JInt i)) else None)"
| "pydantic_str lib (JFloat x) = (if str_from_number lib then Some (py_str lib (JFloat x)) else None)"
| "pydantic_str lib (JArr xs) = None"
| "pydantic_str lib (JObj kv) = None"

definition nl :: nat where
  "nl = 0x0A"

text \<open>\<open>"\n\n".join([f"Passage {i+1}:\n{c}" for i, c in enumerate(contexts)])\<close>\<close>

definition passage :: "pylib \<Rightarrow> nat \<times> json \<Rightarrow> pystr" where
  "passage lib ic = py ''Passage '' @ str_nat (fst ic + 1) @ py '':'' @ [nl] @ py_str lib (snd ic)"

definition context_str :: "pylib \<Rightarrow> json list \<Rightarrow> pystr" where
  "context_str lib contexts = py_join [nl, nl] (map (passage lib) (enumerate 0 contexts))"

section \<open>Process state and outbound calls\<close>

text \<open>
  Every call that leaves the process is appended to a log, so that "the adapter is not
  called" is a statement about the log. \<open>Sleep\<close> records a \<open>time.sleep\<close>.
\<close>

datatype call =
    Embed_post "pystr list"
  | Chat_post pystr pystr
  | Qdrant_search json nat
  | Co_embed pystr
  | Co_chat pystr
  | Embed_text_post pystr
  | Sleep nat

text \<open>
  The module-level \<open>embedding_cache\<close> dictionary, the parsed contents of the cache file
  and the log of calls made so far.
\<close>

record state =
  embedding_cache :: "pystr \<rightharpoonup> json"
  cache_file :: "pystr \<rightharpoonup> json"
  calls :: "call list"

text \<open>
  What an HTTP request made with \<open>requests.post\<close> comes back with: an exception, or a
  status code and a body; the body is \<open>None\<close> when \<open>resp.json()\<close> cannot parse it.
\<close>

datatype http_result = Request_failed | Response nat "json option"

text \<open>
  Writing the cache file either succeeds, and the file then holds the dictionary, or
  raises, and the file is left with some other contents.
\<close>

datatype write_outcome = Written | Write_failed "pystr \<rightharpoonup> json"

text \<open>A point returned by the vector index: \<open>r.payload\<close> (possibly \<open>None\<close>) and \<open>r.score\<close>.\<close>

record scored_point =
  payload :: "(pystr \<times> json) list option"
  score :: json

text \<open>The dictionaries built by the search helpers, with keys text, chapter, chunk_index, score.\<close>

record chunk =
  c_text :: json
  c_chapter :: json
  c_chunk_index :: json
  c_score :: json

text \<open>
  The request and response models of \<open>POST /query\<close>. A \<open>source\<close> is a validated
  \<open>Source\<close> object: \<open>chapter\<close> is a string, or \<open>None\<close> where the field is optional.
\<close>

record query_request =
  question :: pystr
  selected_text :: "pystr option"

record source =
  s_chapter :: "pystr option"
  s_section :: pystr
  s_url :: "pystr option"

text \<open>
  \<open>for r in results: sources.append(Source(...))\<close>: the list of the sources, or the
  exception of the first constructor call that raises.
\<close>

fun build_sources :: "(chunk \<Rightarrow> pyexc + source) \<Rightarrow> chunk list \<Rightarrow> pyexc + source list" where
  "build_sources f [] = Inr []"
| "build_sources f (r # rs) =
     (case f r of
        Inl e \<Rightarrow> Inl e
      | Inr src \<Rightarrow> (case build_sources f rs of Inl e \<Rightarrow> Inl e | Inr srcs \<Rightarrow> Inr (src # srcs)))"

definition sleep :: "nat \<Rightarrow> state \<Rightarrow> state" where
  "sleep n s = s\<lparr>calls := calls s @ [Sleep n]\<rparr>"

text \<open>
  A statement that returns from the enclosing function yields \<open>Inr (Some v)\<close>, one that
  raises yields \<open>Inl e\<close>, and \<open>Inr None\<close> means control falls through to the next statement.
\<close>

definition or_else :: "pyexc + 'a option \<Rightarrow> pyexc + 'a option \<Rightarrow> pyexc + 'a option" where
  "or_else r k = (case r of Inl e \<Rightarrow> Inl e | Inr (Some v) \<Rightarrow> Inr (Some v) | Inr None \<Rightarrow> k)"

text \<open>\<open>req.selected_text and req.selected_text.strip()\<close>, then the stripped text.\<close>

definition selected_passage :: "query_request \<Rightarrow> pystr option" where
  "selected_passage req =
     (case selected_text req of
        None \<Rightarrow> None
      | Some t \<Rightarrow> if t \<noteq> [] \<and> strip t \<noteq> [] then Some (strip t) else None)"

section \<open>The Gemini variant (main.py)\<close>

record main_env =
  embed_post :: "pystr list \<Rightarrow> http_result"
  chat_post :: "pystr \<Rightarrow> pystr \<Rightarrow> http_result"
  qdrant_search :: "json \<Rightarrow> nat \<Rightarrow> scored_point list option"
  cache_write :: write_outcome

record query_response =
  answer :: pystr
  sources :: "source list"
  meta :: "(pystr \<times> json) list"

subsection \<open>save_cache\<close>

text \<open>The exception of a failed write is caught inside \<open>save_cache\<close> and printed.\<close>

definition save_cache :: "write_outcome \<Rightarrow> state \<Rightarrow> state" where
  "save_cache w s =
     (case w of
        Written \<Rightarrow> s\<lparr>cache_file := embedding_cache s\<rparr>
      | Write_failed f \<Rightarrow> s\<lparr>cache_file := f\<rparr>)"

subsection \<open>gemini_embed_texts\<close>

text \<open>The body of \<open>for d in j["data"]\<close>: what is appended for one element.\<close>

fun embed_item :: "json \<Rightarrow> json" where
  "embed_item (JObj kv) = (case map_of kv (py ''embedding'') of None \<Rightarrow> JNull | Some e \<Rightarrow> e)"
| "embed_item (JArr xs) = JArr xs"
| "embed_item JNull = JNull"
| "embed_item (JBool b) = JNull"
| "embed_item (JInt i) = JNull"
| "embed_item (JFloat x) = JNull"
| "embed_item (JStr s) = JNull"

text \<open>\<open>isinstance(j, dict) and "data" in j and isinstance(j["data"], list)\<close>\<close>

fun data_list :: "json \<Rightarrow> json list option" where
  "data_list (JObj kv) = (case map_of kv (py ''data'') of Some (JArr ds) \<Rightarrow> Some ds | _ \<Rightarrow> None)"
| "data_list JNull = None"
| "data_list (JBool b) = None"
| "data_list (JInt i) = None"
| "data_list (JFloat x) = None"
| "data_list (JStr s) = None"
| "data_list (JArr xs) = None"

text \<open>\<open>if "embedding" in j: return [j["embedding"]]\<close>, then the final \<open>return None\<close>.\<close>

definition single_embedding :: "json \<Rightarrow> pyexc + json list option" where
  "single_embedding j =
     (case py_in (py ''embedding'') j of
        Inl e \<Rightarrow> Inl e
      | Inr True \<Rightarrow> (case py_getitem j (py ''embedding'') of Inl e \<Rightarrow> Inl e | Inr v \<Rightarrow> Inr (Some [v]))
      | Inr False \<Rightarrow> Inr None)"

text \<open>The parsing of the response body \<open>j = resp.json()\<close>.\<close>

definition parse_embed_response :: "json \<Rightarrow> pyexc + json list option" where
  "parse_embed_response j =
     (case data_list j of
        Some ds \<Rightarrow> Inr (Some (map embed_item ds))
      | None \<Rightarrow>
          (case py_in (py ''embeddings'') j of
             Inl e \<Rightarrow> Inl e
           | Inr True \<Rightarrow>
               (case py_getitem j (py ''embeddings'') of
                  Inl e \<Rightarrow> Inl e
                | Inr (JArr es) \<Rightarrow> Inr (Some es)
                | Inr _ \<Rightarrow> single_embedding j)
           | Inr False \<Rightarrow> single_embedding j))"

definition gemini_embed_texts ::
  "main_env \<Rightarrow> pystr list \<Rightarrow> state \<Rightarrow> (pyexc + json list option) \<times> state" where
  "gemini_embed_texts env texts s =
     (let s' = s\<lparr>calls := calls s @ [Embed_post texts]\<rparr> in
      case embed_post env texts of
        Request_failed \<Rightarrow> (Inr None, s')
      | Response code body \<Rightarrow>
          if code \<noteq> 200 then (Inr None, s')
          else (case body of
                  None \<Rightarrow> (Inl JSONDecodeError, s')
                | Some j \<Rightarrow> (parse_embed_response j, s')))"

subsection \<open>gemini_chat\<close>

text \<open>The loop over \<open>j["output"]["content"]\<close>: what one item adds to \<open>parts\<close>, if anything.\<close>

fun vertex_part :: "json \<Rightarrow> json option" where
  "vertex_part (JObj kv) =
     (case map_of kv (py ''text'') of
        Some t \<Rightarrow> Some t
      | None \<Rightarrow>
          (case map_of kv (py ''content'') of
             Some (JObj ckv) \<Rightarrow> map_of ckv (py ''text'')
           | _ \<Rightarrow> None))"
| "vertex_part (JStr s) = Some (JStr s)"
| "vertex_part JNull = None"
| "vertex_part (JBool b) = None"
| "vertex_part (JInt i) = None"
| "vertex_part (JFloat x) = None"
| "vertex_part (JArr xs) = None"

text \<open>\<open>if parts: return " ".join(parts).strip()\<close>\<close>

definition joined_text :: "json list \<Rightarrow> pyexc + pystr option" where
  "joined_text parts =
     (if parts \<noteq> []
      then (case str_join (py '' '') parts of Inl e \<Rightarrow> Inl e | Inr t \<Rightarrow> Inr (Some (strip t)))
      else Inr None)"

text \<open>The Vertex-style branch: \<open>if "output" in j and isinstance(j["output"], dict)\<close>.\<close>

definition vertex_text :: "(pystr \<times> json) list \<Rightarrow> pyexc + pystr option" where
  "vertex_text kv =
     (case map_of kv (py ''output'') of
        Some (JObj out) \<Rightarrow>
          (case dict_get out (py ''content'') of
             JArr content \<Rightarrow> joined_text (List.map_filter vertex_part content)
           | _ \<Rightarrow> Inr None)
      | _ \<Rightarrow> Inr None)"

text \<open>The loop over a list-valued \<open>msg["content"]\<close>.\<close>

fun openai_part :: "json \<Rightarrow> json option" where
  "openai_part (JObj kv) = map_of kv (py ''text'')"
| "openai_part (JStr s) = Some (JStr s)"
| "openai_part JNull = None"
| "openai_part (JBool b) = None"
| "openai_part (JInt i) = None"
| "openai_part (JFloat x) = None"
| "openai_part (JArr xs) = None"

text \<open>\<open>if "content" in msg:\<close> with its list and string cases.\<close>

definition msg_content_text :: "(pystr \<times> json) list \<Rightarrow> pyexc + pystr option" where
  "msg_content_text mkv =
     (case map_of mkv (py ''content'') of
        Some (JArr cont) \<Rightarrow> joined_text (List.map_filter openai_part cont)
      | Some (JStr cont) \<Rightarrow> Inr (Some (strip cont))
      | _ \<Rightarrow> Inr None)"

text \<open>\<open>if k in d and isinstance(d[k], str): return d[k].strip()\<close>\<close>

definition str_field :: "(pystr \<times> json) list \<Rightarrow> pystr \<Rightarrow> pyexc + pystr option" where
  "str_field kv k = (case map_of kv k of Some (JStr t) \<Rightarrow> Inr (Some (strip t)) | _ \<Rightarrow> Inr None)"

text \<open>
  The OpenAI-style branch. \<open>first.get\<close> raises \<open>AttributeError\<close> unless \<open>first\<close> is a
  dictionary; \<open>msg\<close> is \<open>first.get("message") or first.get("delta") or first\<close>.
\<close>

definition first_choice_text :: "json \<Rightarrow> pyexc + pystr option" where
  "first_choice_text first =
     (case first of
        JObj fkv \<Rightarrow>
          (let m = dict_get fkv (py ''message'');
               d = dict_get fkv (py ''delta'');
               msg = (if truthy m then m else if truthy d then d else first)
           in or_else
                (case msg of
                   JObj mkv \<Rightarrow> or_else (msg_content_text mkv) (str_field fkv (py ''content''))
                 | _ \<Rightarrow> Inr None)
                (str_field fkv (py ''text'')))
      | _ \<Rightarrow> Inl AttributeError)"

definition openai_text :: "(pystr \<times> json) list \<Rightarrow> pyexc + pystr option" where
  "openai_text kv =
     (case map_of kv (py ''choices'') of
        Some (JArr (first # rest)) \<Rightarrow> first_choice_text first
      | _ \<Rightarrow> Inr None)"

text \<open>
  The parsing of the chat response body. When no branch returns, the function ends with
  \<open>json.dumps(j)[:1500]\<close>; \<open>json.dumps\<close> does not raise on a value that \<open>resp.json()\<close>
  produced, so the \<open>except\<close> branch around it is never taken.
\<close>

definition parse_chat_response :: "pylib \<Rightarrow> json \<Rightarrow> pyexc + pystr" where
  "parse_chat_response lib j =
     (case (case j of
              JObj kv \<Rightarrow> or_else (vertex_text kv) (or_else (openai_text kv) (str_field kv (py ''text'')))
            | _ \<Rightarrow> Inr None) of
        Inl e \<Rightarrow> Inl e
      | Inr (Some t) \<Rightarrow> Inr t
      | Inr None \<Rightarrow> Inr (take 1500 (json_dumps lib j)))"

definition gemini_chat ::
  "pylib \<Rightarrow> main_env \<Rightarrow> pystr \<Rightarrow> pystr \<Rightarrow> state \<Rightarrow> (pyexc + pystr option) \<times> state" where
  "gemini_chat lib env system_prompt user_prompt s =
     (let s' = s\<lparr>calls := calls s @ [Chat_post system_prompt user_prompt]\<rparr> in
      case chat_post env system_prompt user_prompt of
        Request_failed \<Rightarrow> (Inr None, s')
      | Response code body \<Rightarrow>
          if code \<noteq> 200 then (Inr None, s')
          else (case body of
                  None \<Rightarrow> (Inl JSONDecodeError, s')
                | Some j \<Rightarrow>
                    (case parse_chat_response lib j of
                       Inl e \<Rightarrow> (Inl e, s')
                     | Inr t \<Rightarrow> (Inr (Some t), s'))))"

subsection \<open>search_qdrant_by_embedding\<close>

text \<open>The dictionary appended for one result \<open>r\<close>; \<open>payload = r.payload or {}\<close>.\<close>

definition main_chunk :: "scored_point \<Rightarrow> chunk" where
  "main_chunk r =
     (let p = (case payload r of None \<Rightarrow> [] | Some kv \<Rightarrow> kv) in
      \<lparr>c_text = dict_get_default p (py ''text'') (JStr []),
       c_chapter = dict_get p (py ''chapter''),
       c_chunk_index = dict_get p (py ''chunk_index''),
       c_score = score r\<rparr>)"

definition search_qdrant_by_embedding ::
  "main_env \<Rightarrow> json \<Rightarrow> nat \<Rightarrow> state \<Rightarrow> chunk list \<times> state" where
  "search_qdrant_by_embedding env embedding top_k s =
     (let s' = s\<lparr>calls := calls s @ [Qdrant_search embedding top_k]\<rparr> in
      case qdrant_search env embedding top_k of
        None \<Rightarrow> ([], s')
      | Some results \<Rightarrow> (map main_chunk results, s'))"

subsection \<open>query_route\<close>

definition system_prompt_text :: pystr where
  "system_prompt_text =
     py ''You are an expert assistant specialized in Physical AI & Humanoid Robotics. '' @
     py ''Answer the user'' @ [0x27] @ py ''s question using ONLY the information contained in the provided passages. '' @
     py ''Be precise, technical, and concise. If the answer is not present in the passages, reply: '' @
     [0x22] @ py ''I don'' @ [0x27] @ py ''t know based on the textbook.'' @ [0x22]"

definition user_prompt_text :: "pylib \<Rightarrow> json list \<Rightarrow> pystr \<Rightarrow> pystr" where
  "user_prompt_text lib contexts q =
     py ''Context:'' @ [nl] @ context_str lib contexts @ [nl, nl] @ py ''Question: '' @ q @ [nl] @ py ''Answer:''"

text \<open>
  Step 1 of the handler, "Get or compute embedding (cache-first)": \<open>Inr (Some emb)\<close>
  continues with \<open>emb\<close>, \<open>Inr None\<close> is the early return of the degraded response, and
  \<open>Inl e\<close> is an exception raised inside \<open>gemini_embed_texts\<close>.
\<close>

definition get_or_compute_embedding ::
  "main_env \<Rightarrow> pystr \<Rightarrow> state \<Rightarrow> (pyexc + json option) \<times> state" where
  "get_or_compute_embedding env q s =
     (case embedding_cache s q of
        Some emb \<Rightarrow> (Inr (Some emb), s)
      | None \<Rightarrow>
          (case gemini_embed_texts env [q] s of
             (Inl e, s1) \<Rightarrow> (Inl e, s1)
           | (Inr None, s1) \<Rightarrow> (Inr None, s1)
           | (Inr (Some []), s1) \<Rightarrow> (Inr None, s1)
           | (Inr (Some (emb # rest)), s1) \<Rightarrow>
               if emb = JNull then (Inr None, s1)
               else (Inr (Some emb),
                     save_cache (cache_write env)
                       (s1\<lparr>embedding_cache := (embedding_cache s1)(q \<mapsto> emb)\<rparr>))))"

text \<open>Step 3: the context list, with the selected text first when there is one.\<close>

definition build_contexts :: "query_request \<Rightarrow> chunk list \<Rightarrow> json list" where
  "build_contexts req results =
     (case selected_passage req of
        None \<Rightarrow> map c_text results
      | Some t \<Rightarrow> JStr t # map c_text results)"

text \<open>
  Step 5: one \<open>Source\<close> per result. \<open>chapter\<close> is declared \<open>Optional[str]\<close>, so
  \<open>None\<close> is accepted and any other value is validated as a string.
\<close>

definition main_source :: "pylib \<Rightarrow> chunk \<Rightarrow> pyexc + source" where
  "main_source lib r =
     (let section = py ''Chunk '' @ py_str lib (c_chunk_index r) in
      if c_chapter r = JNull
      then Inr \<lparr>s_chapter = None, s_section = section, s_url = None\<rparr>
      else
        (case pydantic_str lib (c_chapter r) of
           None \<Rightarrow> Inl ValidationError
         | Some c \<Rightarrow> Inr \<lparr>s_chapter = Some c, s_section = section, s_url = None\<rparr>))"

definition embed_failed_response :: query_response where
  "embed_failed_response =
     \<lparr>answer = py ''Embedding failed or service unavailable. Please try again later.'',
      sources = [],
      meta = [(py ''rate_limited'', JBool True)]\<rparr>"

definition no_passages_response :: query_response where
  "no_passages_response =
     \<lparr>answer = py ''No relevant passages found in the textbook.'',
      sources = [],
      meta = [(py ''source_count'', JInt 0)]\<rparr>"

definition chat_failed_response :: query_response where
  "chat_failed_response =
     \<lparr>answer = py ''Chat generation failed. Please try again later.'',
      sources = [],
      meta = [(py ''chat_failed'', JBool True)]\<rparr>"

text \<open>Steps 2 to 5, once the embedding \<open>emb\<close> of the question \<open>q\<close> is at hand.\<close>

definition answer_from_embedding ::
  "pylib \<Rightarrow> main_env \<Rightarrow> query_request \<Rightarrow> pystr \<Rightarrow> json \<Rightarrow> state \<Rightarrow>
   (http_error + query_response) \<times> state" where
  "answer_from_embedding lib env req q emb s =
     (case search_qdrant_by_embedding env emb 5 s of
        (results, s1) \<Rightarrow>
          if results = [] then (Inr no_passages_response, s1)
          else
            (case gemini_chat lib env system_prompt_text
                    (user_prompt_text lib (build_contexts req results) q) s1 of
               (Inl e, s2) \<Rightarrow> (Inl (Unhandled e), s2)
             | (Inr None, s2) \<Rightarrow> (Inr chat_failed_response, s2)
             | (Inr (Some a), s2) \<Rightarrow>
                 if a = [] then (Inr chat_failed_response, s2)
                 else
                   (case build_sources (main_source lib) results of
                      Inl e \<Rightarrow> (Inl (Unhandled e), s2)
                    | Inr srcs \<Rightarrow>
                        (Inr \<lparr>answer = strip a,
                              sources = take 5 srcs,
                              meta = [(py ''source_count'', JInt (int (length results)))]\<rparr>, s2))))"

definition query_route ::
  "pylib \<Rightarrow> main_env \<Rightarrow> query_request \<Rightarrow> state \<Rightarrow> (http_error + query_response) \<times> state" where
  "query_route lib env req s =
     (let q = strip (question req) in
      if q = [] then (Inl (HTTPException 400 (py ''Question cannot be empty'')), s)
      else
        (case get_or_compute_embedding env q s of
           (Inl e, s1) \<Rightarrow> (Inl (Unhandled e), s1)
         | (Inr None, s1) \<Rightarrow> (Inr embed_failed_response, s1)
         | (Inr (Some emb), s1) \<Rightarrow> answer_from_embedding lib env req q emb s1))"

section \<open>The Cohere variant (app.py)\<close>

text \<open>
  \<open>co.embed\<close> returns a response whose \<open>embeddings\<close> is a list of vectors, or raises
  \<open>TooManyRequestsError\<close> or another exception; \<open>co.chat\<close> likewise returns a text.
\<close>

datatype co_embed_result = Co_embeddings "json list" | Co_embed_rate_limited | Co_embed_error

datatype co_chat_result = Co_text pystr | Co_chat_rate_limited | Co_chat_error

record app_env =
  co_embed :: "pystr \<Rightarrow> co_embed_result"
  co_chat :: "pystr \<Rightarrow> co_chat_result"
  app_qdrant_search :: "json \<Rightarrow> nat \<Rightarrow> scored_point list option"
  app_cache_write :: write_outcome

record app_response =
  app_answer :: pystr
  app_sources :: "source list"

subsection \<open>get_embedding\<close>

text \<open>
  \<open>save_embedding_cache\<close> has no handler of its own: a failed write raises inside the
  \<open>try\<close> of \<open>get_embedding\<close>, after the dictionary was updated, and the generic
  \<open>except\<close> returns the empty list. \<open>response.embeddings[0]\<close> on an empty list raises
  \<open>IndexError\<close>, caught the same way.
\<close>

definition get_embedding :: "app_env \<Rightarrow> pystr \<Rightarrow> state \<Rightarrow> json \<times> state" where
  "get_embedding env txt s =
     (case embedding_cache s txt of
        Some v \<Rightarrow> (v, s)
      | None \<Rightarrow>
          (let s1 = s\<lparr>calls := calls s @ [Co_embed txt]\<rparr> in
           case co_embed env txt of
             Co_embeddings [] \<Rightarrow> (JArr [], s1)
           | Co_embeddings (embedding # rest) \<Rightarrow>
               (let s2 = s1\<lparr>embedding_cache := (embedding_cache s1)(txt \<mapsto> embedding)\<rparr> in
                case app_cache_write env of
                  Written \<Rightarrow> (embedding, s2\<lparr>cache_file := embedding_cache s2\<rparr>)
                | Write_failed f \<Rightarrow> (JArr [], s2\<lparr>cache_file := f\<rparr>))
           | Co_embed_rate_limited \<Rightarrow> (JArr [], s1)
           | Co_embed_error \<Rightarrow> (JArr [], s1)))"

subsection \<open>search_qdrant\<close>

definition app_chunk :: "scored_point \<Rightarrow> chunk" where
  "app_chunk r =
     (let p = (case payload r of None \<Rightarrow> [] | Some kv \<Rightarrow> kv) in
      \<lparr>c_text = dict_get_default p (py ''text'') (JStr []),
       c_chapter = dict_get_default p (py ''chapter'') (JStr (py ''Unknown'')),
       c_chunk_index = dict_get_default p (py ''chunk_index'') (JInt 0),
       c_score = score r\<rparr>)"

definition search_qdrant :: "app_env \<Rightarrow> pystr \<Rightarrow> nat \<Rightarrow> state \<Rightarrow> chunk list \<times> state" where
  "search_qdrant env query top_k s =
     (case get_embedding env query s of
        (embedding, s1) \<Rightarrow>
          if \<not> truthy embedding then ([], s1)
          else
            (let s2 = s1\<lparr>calls := calls s1 @ [Qdrant_search embedding top_k]\<rparr> in
             case app_qdrant_search env embedding top_k of
               None \<Rightarrow> ([], s2)
             | Some results \<Rightarrow> (map app_chunk results, s2)))"

subsection \<open>generate_answer\<close>

definition no_context_answer :: pystr where
  "no_context_answer =
     py ''I'' @ [0x27] @ py ''m so'' @ py ''rry, I couldn'' @ [0x27] @
     py ''t find relevant information or the API rate limit was reached.''"

definition chat_prompt :: "pylib \<Rightarrow> json list \<Rightarrow> pystr \<Rightarrow> pystr" where
  "chat_prompt lib contexts q =
     [nl] @ py ''You are an expert AI assistant specialized in Physical AI and Humanoid Robotics. '' @
     [nl] @ py ''Use only the information from the provided passages below to answer the user'' @
            [0x27] @ py ''s question.'' @
     [nl] @ py ''Be precise, technical, and concise. If the answer is not in the context, say '' @
            [0x22] @ py ''I don'' @ [0x27] @ py ''t know based on the textbook.'' @ [0x22] @
     [nl] @ py ''Context from the textbook: '' @ context_str lib contexts @
     [nl] @ py ''Question: '' @ q @
     [nl] @ py ''Answer:'' @ [nl]"

definition generate_answer ::
  "pylib \<Rightarrow> app_env \<Rightarrow> json list \<Rightarrow> pystr \<Rightarrow> state \<Rightarrow> pystr \<times> state" where
  "generate_answer lib env contexts q s =
     (if contexts = [] then (no_context_answer, s)
      else
        (let prompt = chat_prompt lib contexts q;
             s1 = s\<lparr>calls := calls s @ [Co_chat prompt]\<rparr> in
         case co_chat env prompt of
           Co_text t \<Rightarrow> (strip t, s1)
         | Co_chat_rate_limited \<Rightarrow>
             (py ''API rate limit reached. Please try again in a few seconds.'', s1)
         | Co_chat_error \<Rightarrow>
             (py ''Sorry, there was an issue generating the answer. Please try again.'', s1)))"

subsection \<open>query_chatbot\<close>

text \<open>
  One \<open>Source\<close> per result; \<open>chapter\<close> is declared \<open>str\<close> here, so \<open>None\<close> is refused
  too.
\<close>

definition app_source :: "pylib \<Rightarrow> chunk \<Rightarrow> pyexc + source" where
  "app_source lib r =
     (case pydantic_str lib (c_chapter r) of
        None \<Rightarrow> Inl ValidationError
      | Some c \<Rightarrow>
          Inr \<lparr>s_chapter = Some c,
               s_section = py ''Chunk '' @ py_str lib (c_chunk_index r),
               s_url = Some []\<rparr>)"

definition query_chatbot ::
  "pylib \<Rightarrow> app_env \<Rightarrow> query_request \<Rightarrow> state \<Rightarrow> (http_error + app_response) \<times> state" where
  "query_chatbot lib env req s =
     (if question req = [] \<or> strip (question req) = []
      then (Inl (HTTPException 400 (py ''Question cannot be empty'')), s)
      else
        (let q = strip (question req) in
         case search_qdrant env q 5 s of
           (search_results, s1) \<Rightarrow>
             (case generate_answer lib env (build_contexts req search_results) q s1 of
                (a, s2) \<Rightarrow>
                  (case build_sources (app_source lib) search_results of
                     Inl e \<Rightarrow> (Inl (Unhandled e), s2)
                   | Inr srcs \<Rightarrow> (Inr \<lparr>app_answer = a, app_sources = take 5 srcs\<rparr>, s2)))))"

section \<open>The cache-filling script (embeddings.py)\<close>

text \<open>
  The provider and the disk may answer differently at each attempt of the retry loop:
  \<open>gem_post n\<close> and \<open>gem_write n\<close> are the outcomes of the \<open>n\<close>-th attempt.
\<close>

record script_env =
  gem_post :: "nat \<Rightarrow> http_result"
  gem_write :: "nat \<Rightarrow> write_outcome"

text \<open>
  One pass through the body of \<open>while True\<close>: \<open>Some vector\<close> when the pass returns,
  \<open>None\<close> when it sleeps and the loop goes round again. Every exception inside the
  \<open>try\<close> (a failed request, an unparsable body, \<open>data.get\<close> on a value that is not a
  dictionary, a failed write of the cache file) ends in the \<open>except\<close> branch, which
  sleeps 10 seconds.
\<close>

definition embed_attempt ::
  "http_result \<Rightarrow> write_outcome \<Rightarrow> pystr \<Rightarrow> state \<Rightarrow> json option \<times> state" where
  "embed_attempt resp w txt s =
     (let s1 = s\<lparr>calls := calls s @ [Embed_text_post txt]\<rparr> in
      case resp of
        Request_failed \<Rightarrow> (None, sleep 10 s1)
      | Response code body \<Rightarrow>
          if code = 200 then
            (case body of
               Some (JObj kv) \<Rightarrow>
                 (let vector = dict_get kv (py ''embedding'') in
                  if truthy vector then
                    (let s2 = s1\<lparr>embedding_cache := (embedding_cache s1)(txt \<mapsto> vector)\<rparr> in
                     case w of
                       Written \<Rightarrow> (Some vector, s2\<lparr>cache_file := embedding_cache s2\<rparr>)
                     | Write_failed f \<Rightarrow> (None, sleep 10 (s2\<lparr>cache_file := f\<rparr>)))
                  else (None, sleep 10 s1))
             | _ \<Rightarrow> (None, sleep 10 s1))
          else if code = 429 then (None, sleep 60 s1)
          else (None, sleep 10 s1))"

text \<open>The loop itself; it has no exit other than the \<open>return vector\<close> of a successful pass.\<close>

partial_function (option) embed_loop ::
  "script_env \<Rightarrow> pystr \<Rightarrow> nat \<Rightarrow> state \<Rightarrow> (json \<times> state) option" where
  "embed_loop env txt n s =
     (case embed_attempt (gem_post env n) (gem_write env n) txt s of
        (None, s') \<Rightarrow> embed_loop env txt (Suc n) s'
      | (Some vector, s') \<Rightarrow> Some (vector, s'))"

definition get_gemini_embedding ::
  "script_env \<Rightarrow> pystr \<Rightarrow> state \<Rightarrow> (json \<times> state) option" where
  "get_gemini_embedding env txt s =
     (case embedding_cache s txt of
        Some v \<Rightarrow> Some (v, s)
      | None \<Rightarrow> embed_loop env txt 0 s)"

section \<open>Auxiliary predicates\<close>

text \<open>A word as \<open>str.split()\<close> produces it: not empty and free of whitespace.\<close>

definition wordlike :: "pystr \<Rightarrow> bool" where
  "wordlike w = (w \<noteq> [] \<and> list_all (\<lambda>c. \<not> py_isspace c) w)"


text \<open>The calls that reach the chat model, and those that reach the embedding provider.\<close>

fun is_chat_call :: "call \<Rightarrow> bool" where
  "is_chat_call (Chat_post sp up) = True"
| "is_chat_call (Co_chat p) = True"
| "is_chat_call (Embed_post ts) = False"
| "is_chat_call (Qdrant_search v k) = False"
| "is_chat_call (Co_embed t) = False"
| "is_chat_call (Embed_text_post t) = False"
| "is_chat_call (Sleep n) = False"

fun is_embed_call :: "call \<Rightarrow> bool" where
  "is_embed_call (Embed_post ts) = True"
| "is_embed_call (Co_embed t) = True"
| "is_embed_call (Embed_text_post t) = True"
| "is_embed_call (Chat_post sp up) = False"
| "is_embed_call (Co_chat p) = False"
| "is_embed_call (Qdrant_search v k) = False"
| "is_embed_call (Sleep n) = False"





text \<open>A field of a result's payload, \<open>None\<close> when the payload or the field is missing.\<close>

definition payload_field :: "scored_point \<Rightarrow> pystr \<Rightarrow> json option" where
  "payload_field r k = (case payload r of None \<Rightarrow> None | Some kv \<Rightarrow> map_of kv k)"

text \<open>
  Whether a result of \<open>gemini_embed_texts\<close> lets the handler go on: a non-empty list
  whose first element is not \<open>None\<close>.
\<close>

fun embed_succeeded :: "pyexc + json list option \<Rightarrow> bool" where
  "embed_succeeded (Inr (Some (v # rest))) = (v \<noteq> JNull)"
| "embed_succeeded (Inr (Some [])) = False"
| "embed_succeeded (Inr None) = False"
| "embed_succeeded (Inl e) = False"

text \<open>
  A call to the embedding endpoint that fails before any body is parsed: the request
  raises, or the status is not 200 (429 when the provider limits the rate).
\<close>

fun embed_call_fails :: "http_result \<Rightarrow> bool" where
  "embed_call_fails Request_failed = True"
| "embed_call_fails (Response code body) = (code \<noteq> 200)"

text \<open>A response object with none of the keys \<open>gemini_embed_texts\<close> looks for.\<close>

definition unknown_embed_shape :: "(pystr \<times> json) list \<Rightarrow> bool" where
  "unknown_embed_shape kv =
     (map_of kv (py ''data'') = None \<and> map_of kv (py ''embeddings'') = None \<and> map_of kv (py ''embedding'') = None)"

text \<open>
  Whether one pass of the retry loop of \<open>get_gemini_embedding\<close> obtains an embedding: a
  200 response whose body is a dictionary with a true \<open>embedding\<close> value.
\<close>

fun attempt_vector :: "http_result \<Rightarrow> json option" where
  "attempt_vector (Response code (Some (JObj kv))) =
     (if code = 200 \<and> truthy (dict_get kv (py ''embedding'')) then Some (dict_get kv (py ''embedding'')) else None)"
| "attempt_vector (Response code (Some JNull)) = None"
| "attempt_vector (Response code (Some (JBool b))) = None"
| "attempt_vector (Response code (Some (JInt i))) = None"
| "attempt_vector (Response code (Some (JFloat x))) = None"
| "attempt_vector (Response code (Some (JStr t))) = None"
| "attempt_vector (Response code (Some (JArr xs))) = None"
| "attempt_vector (Response code None) = None"
| "attempt_vector Request_failed = None"

section \<open>Sample inputs\<close>

text \<open>
  Concrete environments, states and requests on which the theorems below are
  instantiated. \<open>sample_dumps\<close> is \<open>json.dumps\<close> on an object with one member whose
  value is a string, when neither string needs escaping: the only kind of value it is
  evaluated on below. On every other value it is a placeholder.
\<close>

definition sample_text :: "nat \<Rightarrow> pystr" where
  "sample_text n = py_join (py '' '') (replicate n (py ''w''))"

fun sample_dumps :: "json \<Rightarrow> pystr" where
  "sample_dumps (JObj [(k, JStr v)]) =
     py ''{'' @ [0x22] @ k @ [0x22] @ py '': '' @ [0x22] @ v @ [0x22] @ py ''}''"
| "sample_dumps j = py ''null''"

definition sample_lib :: pylib where
  "sample_lib = \<lparr>json_dumps = sample_dumps, py_repr = (\<lambda>j. py ''?''), str_from_number = False\<rparr>"

definition state0 :: state where
  "state0 = \<lparr>embedding_cache = Map.empty, cache_file = Map.empty, calls = []\<rparr>"

definition sample_vec :: json where
  "sample_vec = JArr [JFloat (1/4), JFloat (1/2)]"

definition embed_ok :: http_result where
  "embed_ok = Response 200 (Some (JObj [(py ''embeddings'', JArr [sample_vec])]))"

definition chat_ok :: http_result where
  "chat_ok = Response 200 (Some (JObj [(py ''text'', JStr (py ''ROS 2 is robot middleware.''))]))"

definition chat_odd :: http_result where
  "chat_odd = Response 200 (Some (JObj [(py ''error'', JStr (py ''quota exceeded''))]))"

definition rate_limited :: http_result where
  "rate_limited = Response 429 None"

definition sample_points :: "scored_point list" where
  "sample_points =
     [\<lparr>payload = Some [(py ''text'', JStr (py ''Nodes exchange messages.'')), (py ''chapter'', JStr (py ''Intro'')),
                        (py ''chunk_index'', JInt 3)],
       score = JFloat (9/10)\<rparr>,
      \<lparr>payload = None, score = JFloat (4/5)\<rparr>]"

definition sample_main_env :: "http_result \<Rightarrow> scored_point list option \<Rightarrow> http_result \<Rightarrow> main_env" where
  "sample_main_env e r c =
     \<lparr>embed_post = (\<lambda>ts. e), chat_post = (\<lambda>sp up. c), qdrant_search = (\<lambda>v k. r),
      cache_write = Written\<rparr>"

definition sample_app_env :: "co_embed_result \<Rightarrow> scored_point list option \<Rightarrow> co_chat_result \<Rightarrow> app_env" where
  "sample_app_env e r c =
     \<lparr>co_embed = (\<lambda>t. e), co_chat = (\<lambda>p. c), app_qdrant_search = (\<lambda>v k. r),
      app_cache_write = Written\<rparr>"

definition plain_request :: query_request where
  "plain_request = \<lparr>question = py ''What is ROS 2?'', selected_text = None\<rparr>"

definition selection_request :: query_request where
  "selection_request =
     \<lparr>question = py '' What is ROS 2? '', selected_text = Some (py '' ROS 2 nodes '')\<rparr>"

definition sample_q :: pystr where
  "sample_q = py ''What is ROS 2?''"

text \<open>Environments in which the search finds nothing, and in which it finds \<open>sample_points\<close>.\<close>

definition no_hits_env :: main_env where
  "no_hits_env = sample_main_env embed_ok (Some []) chat_ok"

definition no_hits_app_env :: app_env where
  "no_hits_app_env =
     sample_app_env (Co_embeddings [sample_vec]) (Some []) (Co_text (py ''From the selection.''))"

definition hits_env :: main_env where
  "hits_env = sample_main_env embed_ok (Some sample_points) chat_ok"

definition hits_app_env :: app_env where
  "hits_app_env =
     sample_app_env (Co_embeddings [sample_vec]) (Some sample_points)
       (Co_text (py ''ROS 2 is robot middleware.''))"

text \<open>Environments whose embedding provider answers with a rate limit.\<close>

definition limited_env :: main_env where
  "limited_env = sample_main_env rate_limited (Some sample_points) chat_ok"

definition limited_app_env :: app_env where
  "limited_app_env =
     sample_app_env Co_embed_rate_limited (Some sample_points) (Co_text (py ''From the selection.''))"

text \<open>The script's provider answering 429 twice and then with an embedding.\<close>

definition sample_script_env :: script_env where
  "sample_script_env =
     \<lparr>gem_post = (\<lambda>n. if n < 2 then rate_limited
                       else Response 200 (Some (JObj [(py ''embedding'', sample_vec)]))),
      gem_write = (\<lambda>n. Written)\<rparr>"

text \<open>The script's provider answering 429 for ever.\<close>

definition stuck_script_env :: script_env where
  "stuck_script_env = \<lparr>gem_post = (\<lambda>n. rate_limited), gem_write = (\<lambda>n. Written)\<rparr>"

text \<open>An environment whose chat endpoint answers 200 with an error object.\<close>

definition odd_chat_env :: main_env where
  "odd_chat_env = sample_main_env embed_ok (Some sample_points) chat_odd"

section \<open>Literals\<close>

lemma py_Nil [simp]: "py [] = []"
  by (simp add: py_def)

lemma py_append: "py (a @ b) = py a @ py b"
  by (simp add: py_def)

lemma py_merge [simp]: "py a @ py b = py (a @ b)" "py a @ py b @ c = py (a @ b) @ c"
  by (simp_all add: py_def)

lemma py_eq_iff [simp]: "py a = py b \<longleftrightarrow> a = b"
  unfolding py_def by (rule inj_map_eq_map) (simp add: inj_on_def)

lemma py_eq_Nil [simp]: "py a = [] \<longleftrightarrow> a = []"
  by (simp add: py_def)

lemma length_py [simp]: "length (py a) = length a"
  by (simp add: py_def)

lemma py_space: "py '' '' = [0x20]"
  by (simp add: py_def)

section \<open>Splitting and joining\<close>

lemma split_from_nospace:
  "list_all (\<lambda>c. \<not> py_isspace c) w \<Longrightarrow> split_from acc w = (if acc @ w = [] then [] else [acc @ w])"
  by (induction w arbitrary: acc) auto

lemma split_from_word_space:
  "list_all (\<lambda>c. \<not> py_isspace c) w \<Longrightarrow> py_isspace c \<Longrightarrow> acc @ w \<noteq> [] \<Longrightarrow>
   split_from acc (w @ c # rest) = (acc @ w) # split_from [] rest"
  by (induction w arbitrary: acc) auto

lemma space_isspace: "py_isspace 0x20"
  by (simp add: py_isspace_def)

lemma py_split_join:
  "list_all wordlike ws \<Longrightarrow> py_split (py_join (py '' '') ws) = ws"
proof (induction "py '' ''" ws rule: py_join.induct)
  case 1
  then show ?case by (simp add: py_split_def)
next
  case (2 x)
  then show ?case by (simp add: py_split_def wordlike_def split_from_nospace)
next
  case (3 x y ys)
  then have "split_from [] (x @ 0x20 # py_join (py '' '') (y # ys)) = ([] @ x) # split_from [] (py_join (py '' '') (y # ys))"
    by (intro split_from_word_space) (simp_all add: wordlike_def space_isspace)
  with 3 show ?case by (simp add: py_split_def py_space)
qed

lemma split_from_wordlike:
  "list_all (\<lambda>c. \<not> py_isspace c) acc \<Longrightarrow> list_all wordlike (split_from acc s)"
  by (induction s arbitrary: acc) (auto simp: wordlike_def)

lemma py_split_wordlike: "list_all wordlike (py_split s)"
  by (simp add: py_split_def split_from_wordlike)

section \<open>The chunking loop in closed form\<close>

lemma chunk_count_step:
  assumes "i < n"
  shows "(n - i + 179) div 180 = Suc ((n - (i + 180) + 179) div (180::nat))"
proof (cases "n - i < 180")
  case True
  then have z: "n - (i + 180) = 0" by simp
  have "(n - i + 179) div 180 = 1"
  proof (rule div_nat_eqI)
    show "180 * 1 \<le> n - i + 179" using assms by simp
    show "n - i + 179 < 180 * Suc 1" using True by simp
  qed
  then show ?thesis by (simp add: z)
next
  case False
  then have "n - i = (n - (i + 180)) + 180" by simp
  then have "(n - i + 179) div 180 = ((n - (i + 180) + 179) + 180) div 180"
    by (simp only: add.assoc add.commute [of 179 180] add.left_commute)
  also have "\<dots> = Suc ((n - (i + 180) + 179) div 180)"
    by (simp only: div_add_self2 [OF numeral_neq_zero])
  finally show ?thesis .
qed

lemma chunk_loop_closed:
  "chunk_loop words i chunks =
     chunks @ map (\<lambda>k. py_join (py '' '') (take 220 (drop (i + 180 * k) words)))
                  [0..<(length words - i + 179) div 180]"
proof (induction words i chunks rule: chunk_loop.induct)
  case (1 words i chunks)
  show ?case
  proof (cases "i < length words")
    case True
    let ?m = "(length words - (i + 180) + 179) div 180"
    let ?c = "py_join (py '' '') (take 220 (drop i words))"
    have n: "(length words - i + 179) div 180 = Suc ?m"
      using True by (rule chunk_count_step)
    have step: "CHUNK_SIZE - CHUNK_OVERLAP = 180" "CHUNK_SIZE = 220"
      by (simp_all add: CHUNK_SIZE_def CHUNK_OVERLAP_def)
    have loop: "chunk_loop words i chunks =
        chunk_loop words (i + (CHUNK_SIZE - CHUNK_OVERLAP))
          (chunks @ [py_join (py '' '') (take CHUNK_SIZE (drop i words))])"
      using True by (subst chunk_loop.simps) (simp only: if_True)
    have "chunk_loop words i chunks = chunk_loop words (i + 180) (chunks @ [?c])"
      using loop by (simp add: CHUNK_SIZE_def CHUNK_OVERLAP_def)
    also have "\<dots> = (chunks @ [?c]) @
        map (\<lambda>k. py_join (py '' '') (take 220 (drop (i + 180 + 180 * k) words))) [0..<?m]"
      using "1.IH" [OF True] by (simp add: CHUNK_SIZE_def CHUNK_OVERLAP_def add.assoc)
    also have "\<dots> = chunks @ map (\<lambda>k. py_join (py '' '') (take 220 (drop (i + 180 * k) words))) [0..<Suc ?m]"
      by (simp only: map_upt_Suc append_Cons append_Nil append_assoc mult_Suc_right add.assoc mult_0_right add_0_right)
    finally show ?thesis by (simp only: n)
  next
    case False
    then show ?thesis by (subst chunk_loop.simps) simp
  qed
qed

lemma wordlike_slice: "list_all wordlike ws \<Longrightarrow> list_all wordlike (take m (drop n ws))"
  by (simp add: list_all_iff) (meson in_set_dropD in_set_takeD)

lemma chunk_text_closed:
  "chunk_text txt = map (\<lambda>k. py_join (py '' '') (take 220 (drop (180 * k) (py_split txt))))
                        [0..<(length (py_split txt) + 179) div 180]"
  unfolding chunk_text_def chunk_loop_closed [of _ 0 "[]"]
  by (simp only: append_Nil add_0 diff_zero)

lemma chunk_text_length: "length (chunk_text txt) = (length (py_split txt) + 179) div 180"
  by (simp add: chunk_text_closed)

lemma chunk_text_nth:
  assumes "k < length (chunk_text txt)"
  shows "py_split (chunk_text txt ! k) = take 220 (drop (180 * k) (py_split txt))"
proof -
  have "chunk_text txt ! k = py_join (py '' '') (take 220 (drop (180 * k) (py_split txt)))"
    using assms by (simp add: chunk_text_closed)
  then show ?thesis
    by (simp add: py_split_join wordlike_slice py_split_wordlike)
qed

lemma slice_overlap:
  "drop 180 (take 220 (drop (180 * k) ws)) = take 40 (take 220 (drop (180 * Suc k) ws))"
  by (simp add: drop_take add.commute)

lemma chunk_index_bound:
  assumes "i < n"
  shows "i div 180 < (n + 179) div (180::nat)"
proof -
  have "180 * (i div 180) \<le> i" by simp
  then have "180 * Suc (i div 180) \<le> n + 179" using assms by simp
  then have "(180 * Suc (i div 180)) div 180 \<le> (n + 179) div 180"
    by (rule div_le_mono)
  then show ?thesis by simp
qed

lemma slice_nth:
  assumes "i < length ws"
  shows "take 220 (drop (180 * (i div 180)) ws) ! (i mod 180) = ws ! i"
proof -
  have m: "i mod 180 < 220"
    by (rule less_trans [OF mod_less_divisor]) simp_all
  have "180 * (i div 180) + i mod 180 = i" by simp
  then show ?thesis using assms m by (simp del: mult_div_mod_eq)
qed

lemma strip_empty_iff: "strip s = [] \<longleftrightarrow> list_all py_isspace s"
proof
  assume "strip s = []"
  then have a: "\<forall>c \<in> set (dropWhile py_isspace s). py_isspace c"
    by (simp add: strip_def rstrip_def lstrip_def dropWhile_eq_Nil_conv)
  have "dropWhile py_isspace s = []"
  proof (rule ccontr)
    assume n: "dropWhile py_isspace s \<noteq> []"
    then have "\<not> py_isspace (hd (dropWhile py_isspace s))" by (rule hd_dropWhile)
    moreover have "hd (dropWhile py_isspace s) \<in> set (dropWhile py_isspace s)"
      using n by (rule hd_in_set)
    ultimately show False using a by blast
  qed
  then show "list_all py_isspace s"
    by (simp add: dropWhile_eq_Nil_conv list_all_iff)
next
  assume "list_all py_isspace s"
  then have d: "dropWhile py_isspace s = []"
    by (simp add: dropWhile_eq_Nil_conv list_all_iff)
  show "strip s = []"
    unfolding strip_def rstrip_def lstrip_def d by simp
qed


section \<open>The query handlers\<close>

text \<open>
  Claim C1. When every character of the question is whitespace (the empty question
  included), both \<open>POST /query\<close> handlers raise \<open>HTTPException\<close> with status 400 and
  detail "Question cannot be empty", and they leave the state as it was: nothing is
  appended to the log of outbound calls, so neither the embedding provider, nor the
  vector index, nor the chat model is called, and the cache is untouched.
\<close>

theorem empty_question_rejected:
  "list_all py_isspace (question req) \<Longrightarrow>
   query_route lib env req s = (Inl (HTTPException 400 (py ''Question cannot be empty'')), s) \<and>
   query_chatbot lib aenv req s = (Inl (HTTPException 400 (py ''Question cannot be empty'')), s) \<and>
   status_code (fst (query_route lib env req s)) = 400 \<and>
   status_code (fst (query_chatbot lib aenv req s)) = 400"
  by (simp add: query_route_def query_chatbot_def strip_empty_iff)

text \<open>
  A question made of a space, a no-break space (U+00A0), an em space (U+2003) and a
  line feed.
\<close>

theorem empty_question_rejected_witness:
  "\<forall>lib env aenv s.
     list_all py_isspace (question \<lparr>question = [0x20, 0xA0, 0x2003, 0x0A], selected_text = None\<rparr>) \<and>
     query_route lib env \<lparr>question = [0x20, 0xA0, 0x2003, 0x0A], selected_text = None\<rparr> s =
       (Inl (HTTPException 400 (py ''Question cannot be empty'')), s) \<and>
     query_chatbot lib aenv \<lparr>question = [0x20, 0xA0, 0x2003, 0x0A], selected_text = None\<rparr> s =
       (Inl (HTTPException 400 (py ''Question cannot be empty'')), s) \<and>
     status_code (fst (query_route lib env \<lparr>question = [0x20, 0xA0, 0x2003, 0x0A], selected_text = None\<rparr> s)) = 400 \<and>
     status_code (fst (query_chatbot lib aenv \<lparr>question = [0x20, 0xA0, 0x2003, 0x0A], selected_text = None\<rparr> s)) = 400"
proof -
  have h: "list_all py_isspace (question \<lparr>question = [0x20, 0xA0, 0x2003, 0x0A], selected_text = None\<rparr>)"
    by (simp add: py_isspace_def)
  show ?thesis
    using h empty_question_rejected [OF h] by blast
qed

section \<open>What the helpers do to the state\<close>

lemma gemini_embed_texts_calls:
  "snd (gemini_embed_texts env ts s) = s\<lparr>calls := calls s @ [Embed_post ts]\<rparr>"
  by (simp add: gemini_embed_texts_def Let_def split: http_result.split option.split)

lemma search_qdrant_by_embedding_calls:
  "snd (search_qdrant_by_embedding env emb k s) = s\<lparr>calls := calls s @ [Qdrant_search emb k]\<rparr>"
  by (simp add: search_qdrant_by_embedding_def Let_def split: option.split)

lemma gemini_chat_calls:
  "snd (gemini_chat lib env sp up s) = s\<lparr>calls := calls s @ [Chat_post sp up]\<rparr>"
  by (simp add: gemini_chat_def Let_def split: http_result.split option.split sum.split)

lemma get_or_compute_embedding_calls:
  "calls (snd (get_or_compute_embedding env q s)) =
     (case embedding_cache s q of Some v \<Rightarrow> calls s | None \<Rightarrow> calls s @ [Embed_post [q]])"
proof (cases "embedding_cache s q")
  case None
  obtain r s1 where g: "gemini_embed_texts env [q] s = (r, s1)"
    by (cases "gemini_embed_texts env [q] s")
  then have s1: "s1 = s\<lparr>calls := calls s @ [Embed_post [q]]\<rparr>"
    using gemini_embed_texts_calls [of env "[q]" s] by simp
  show ?thesis
    using None g s1
    by (simp add: get_or_compute_embedding_def save_cache_def
             split: sum.split option.split list.split write_outcome.split)
next
  case (Some v)
  then show ?thesis by (simp add: get_or_compute_embedding_def)
qed

lemma get_or_compute_embedding_no_chat:
  "filter is_chat_call (calls (snd (get_or_compute_embedding env q s))) = filter is_chat_call (calls s)"
  by (simp add: get_or_compute_embedding_calls split: option.split)

lemma answer_from_embedding_empty:
  assumes "fst (search_qdrant_by_embedding env emb 5 s1) = []"
  shows "answer_from_embedding lib env req q emb s1 =
           (Inr no_passages_response, s1\<lparr>calls := calls s1 @ [Qdrant_search emb 5]\<rparr>)"
proof -
  obtain rs s2 where g: "search_qdrant_by_embedding env emb 5 s1 = (rs, s2)"
    by (cases "search_qdrant_by_embedding env emb 5 s1")
  then have "s2 = s1\<lparr>calls := calls s1 @ [Qdrant_search emb 5]\<rparr>" "rs = []"
    using search_qdrant_by_embedding_calls [of env emb 5 s1] assms by simp_all
  with g show ?thesis by (simp add: answer_from_embedding_def)
qed

lemma query_route_valid:
  assumes "strip (question req) = q" "q \<noteq> []"
    and "fst (get_or_compute_embedding env q s) = Inr (Some emb)"
  shows "query_route lib env req s =
           answer_from_embedding lib env req q emb (snd (get_or_compute_embedding env q s))"
proof -
  obtain r s1 where g: "get_or_compute_embedding env q s = (r, s1)"
    by (cases "get_or_compute_embedding env q s")
  with assms show ?thesis by (simp add: query_route_def)
qed

lemma generate_answer_empty: "generate_answer lib env [] q s = (no_context_answer, s)"
  by (simp add: generate_answer_def)

lemma generate_answer_calls:
  "contexts \<noteq> [] \<Longrightarrow>
   snd (generate_answer lib env contexts q s) = s\<lparr>calls := calls s @ [Co_chat (chat_prompt lib contexts q)]\<rparr>"
  by (simp add: generate_answer_def Let_def split: co_chat_result.split)

lemma get_embedding_no_chat:
  "filter is_chat_call (calls (snd (get_embedding env q s))) = filter is_chat_call (calls s)"
  by (simp add: get_embedding_def Let_def
           split: option.split co_embed_result.split list.split write_outcome.split)

lemma search_qdrant_no_chat:
  "filter is_chat_call (calls (snd (search_qdrant env q k s))) = filter is_chat_call (calls s)"
proof -
  obtain e s1 where g: "get_embedding env q s = (e, s1)"
    by (cases "get_embedding env q s")
  then have "filter is_chat_call (calls s1) = filter is_chat_call (calls s)"
    using get_embedding_no_chat [of env q s] by simp
  with g show ?thesis
    by (simp add: search_qdrant_def Let_def split: option.split)
qed

lemma query_chatbot_valid:
  assumes "strip (question req) = q" "q \<noteq> []"
  shows "query_chatbot lib env req s =
     (case build_sources (app_source lib) (fst (search_qdrant env q 5 s)) of
        Inl e \<Rightarrow> Inl (Unhandled e)
      | Inr srcs \<Rightarrow>
          Inr \<lparr>app_answer = fst (generate_answer lib env (build_contexts req (fst (search_qdrant env q 5 s))) q
                                 (snd (search_qdrant env q 5 s))),
                app_sources = take 5 srcs\<rparr>,
      snd (generate_answer lib env (build_contexts req (fst (search_qdrant env q 5 s))) q
             (snd (search_qdrant env q 5 s))))"
proof -
  have "question req \<noteq> []" using assms by (auto simp: strip_def rstrip_def lstrip_def)
  then show ?thesis
    using assms by (simp add: query_chatbot_def Let_def split: prod.split sum.split)
qed

lemma str_nat_1: "str_nat (Suc 0) = py ''1''"
  by (subst str_nat.simps) (simp add: digit_char_def py_def)

lemma str_nat_2: "str_nat (Suc (Suc 0)) = py ''2''"
  by (subst str_nat.simps) (simp add: digit_char_def py_def)

lemma py_join_prefix: "prefix x (py_join sep (x # ys))"
  by (cases ys) simp_all

lemma context_str_first:
  "prefix (py ''Passage 1:'' @ [nl] @ t) (context_str lib (JStr t # cs))"
proof -
  have "passage lib (0, JStr t) = py ''Passage 1:'' @ [nl] @ t"
    by (simp add: passage_def str_nat_1)
  then have "context_str lib (JStr t # cs) =
      py_join [nl, nl] ((py ''Passage 1:'' @ [nl] @ t) # map (passage lib) (enumerate (Suc 0) cs))"
    by (simp add: context_str_def)
  then show ?thesis by (simp only: py_join_prefix)
qed

lemma py_join_concat: "py_join sep (x # ys) = x @ concat (map (\<lambda>y. sep @ y) ys)"
  by (induction ys arbitrary: x) simp_all

lemma context_str_selection:
  "context_str lib (JStr t # cs) =
     py ''Passage 1:'' @ [nl] @ t @
     concat (map (\<lambda>p. [nl, nl] @ passage lib p) (enumerate (Suc 0) cs))"
proof -
  have "passage lib (0, JStr t) = py ''Passage 1:'' @ [nl] @ t"
    by (simp add: passage_def str_nat_1)
  then show ?thesis
    by (simp add: context_str_def py_join_concat comp_def)
qed

lemma user_prompt_selection:
  "user_prompt_text lib (JStr t # cs) q =
     py ''Context:'' @ [nl] @ py ''Passage 1:'' @ [nl] @ t @
     concat (map (\<lambda>p. [nl, nl] @ passage lib p) (enumerate (Suc 0) cs)) @
     [nl, nl] @ py ''Question: '' @ q @ [nl] @ py ''Answer:''"
  by (simp add: user_prompt_text_def context_str_selection)

lemma chat_prompt_selection:
  "suffix (py ''Context from the textbook: Passage 1:'' @ [nl] @ t @
           concat (map (\<lambda>p. [nl, nl] @ passage lib p) (enumerate (Suc 0) cs)) @
           [nl] @ py ''Question: '' @ q @ [nl] @ py ''Answer:'' @ [nl])
     (chat_prompt lib (JStr t # cs) q)"
  unfolding chat_prompt_def context_str_selection suffix_def
  by (rule exI [where x = "[nl] @ py ''You are an expert AI assistant specialized in Physical AI and Humanoid Robotics. '' @
     [nl] @ py ''Use only the information from the provided passages below to answer the user'' @
            [0x27] @ py ''s question.'' @
     [nl] @ py ''Be precise, technical, and concise. If the answer is not in the context, say '' @
            [0x22] @ py ''I don'' @ [0x27] @ py ''t know based on the textbook.'' @ [0x22] @
     [nl]"]) simp

lemma selected_passage_Some:
  "selected_text req = Some raw \<Longrightarrow> strip raw \<noteq> [] \<Longrightarrow> selected_passage req = Some (strip raw)"
  by (auto simp: selected_passage_def strip_def rstrip_def lstrip_def)

lemma answer_from_embedding_calls:
  assumes "fst (search_qdrant_by_embedding env emb 5 s1) = results" "results \<noteq> []"
  shows "calls (snd (answer_from_embedding lib env req q emb s1)) =
           calls s1 @ [Qdrant_search emb 5,
                       Chat_post system_prompt_text (user_prompt_text lib (build_contexts req results) q)]"
proof -
  let ?up = "user_prompt_text lib (build_contexts req results) q"
  let ?s2 = "s1\<lparr>calls := calls s1 @ [Qdrant_search emb 5]\<rparr>"
  have g: "search_qdrant_by_embedding env emb 5 s1 = (results, ?s2)"
    using assms(1) search_qdrant_by_embedding_calls [of env emb 5 s1]
    by (cases "search_qdrant_by_embedding env emb 5 s1") simp
  obtain a s3 where c: "gemini_chat lib env system_prompt_text ?up ?s2 = (a, s3)"
    by (cases "gemini_chat lib env system_prompt_text ?up ?s2")
  then have s3: "s3 = ?s2\<lparr>calls := calls ?s2 @ [Chat_post system_prompt_text ?up]\<rparr>"
    using gemini_chat_calls [of lib env system_prompt_text ?up ?s2] by simp
  show ?thesis
    using assms(2) by (simp add: answer_from_embedding_def g c s3 split: sum.split option.split)
qed


lemma get_or_compute_embedding_hit:
  "embedding_cache s q = Some v \<Longrightarrow> get_or_compute_embedding env q s = (Inr (Some v), s)"
  by (simp add: get_or_compute_embedding_def)

lemma get_or_compute_embedding_success:
  assumes "embedding_cache s q = None"
    and "fst (gemini_embed_texts env [q] s) = Inr (Some (v # rest))" and "v \<noteq> JNull"
  shows "get_or_compute_embedding env q s =
           (Inr (Some v),
            save_cache (cache_write env)
              (s\<lparr>calls := calls s @ [Embed_post [q]], embedding_cache := (embedding_cache s)(q \<mapsto> v)\<rparr>))"
proof -
  have "gemini_embed_texts env [q] s = (Inr (Some (v # rest)), s\<lparr>calls := calls s @ [Embed_post [q]]\<rparr>)"
    using assms(2) gemini_embed_texts_calls [of env "[q]" s]
    by (cases "gemini_embed_texts env [q] s") simp
  then show ?thesis
    using assms(1,3) by (simp add: get_or_compute_embedding_def)
qed

lemma get_or_compute_embedding_failure:
  assumes "embedding_cache s q = None"
    and "\<not> embed_succeeded (fst (gemini_embed_texts env [q] s))"
  shows "snd (get_or_compute_embedding env q s) = s\<lparr>calls := calls s @ [Embed_post [q]]\<rparr>"
    and "fst (get_or_compute_embedding env q s) =
           (case fst (gemini_embed_texts env [q] s) of Inl e \<Rightarrow> Inl e | Inr r \<Rightarrow> Inr None)"
proof -
  obtain r where g: "gemini_embed_texts env [q] s = (r, s\<lparr>calls := calls s @ [Embed_post [q]]\<rparr>)"
    using gemini_embed_texts_calls [of env "[q]" s]
    by (cases "gemini_embed_texts env [q] s") simp
  with assms(2) have n: "\<not> embed_succeeded r" by simp
  show "snd (get_or_compute_embedding env q s) = s\<lparr>calls := calls s @ [Embed_post [q]]\<rparr>"
    using assms(1) g n
    by (cases r rule: embed_succeeded.cases) (simp_all add: get_or_compute_embedding_def)
  show "fst (get_or_compute_embedding env q s) =
           (case fst (gemini_embed_texts env [q] s) of Inl e \<Rightarrow> Inl e | Inr r \<Rightarrow> Inr None)"
    using assms(1) g n
    by (cases r rule: embed_succeeded.cases) (simp_all add: get_or_compute_embedding_def)
qed

lemma get_or_compute_embedding_keeps:
  assumes "embedding_cache s t = Some v"
  shows "embedding_cache (snd (get_or_compute_embedding env q s)) t = Some v"
proof (cases "embedding_cache s q")
  case (Some w)
  then show ?thesis using assms by (simp add: get_or_compute_embedding_hit)
next
  case None
  then have ne: "t \<noteq> q" using assms by auto
  obtain r where g: "gemini_embed_texts env [q] s = (r, s\<lparr>calls := calls s @ [Embed_post [q]]\<rparr>)"
    using gemini_embed_texts_calls [of env "[q]" s]
    by (cases "gemini_embed_texts env [q] s") simp
  show ?thesis
    using None g ne assms
    by (simp add: get_or_compute_embedding_def save_cache_def
             split: sum.split option.split list.split write_outcome.split)
qed

lemma answer_from_embedding_state:
  "snd (answer_from_embedding lib env req q emb s1) =
     s1\<lparr>calls := calls s1 @
        (if fst (search_qdrant_by_embedding env emb 5 s1) = [] then [Qdrant_search emb 5]
         else [Qdrant_search emb 5,
               Chat_post system_prompt_text
                 (user_prompt_text lib
                    (build_contexts req (fst (search_qdrant_by_embedding env emb 5 s1))) q)])\<rparr>"
proof -
  let ?results = "fst (search_qdrant_by_embedding env emb 5 s1)"
  let ?up = "user_prompt_text lib (build_contexts req ?results) q"
  let ?s2 = "s1\<lparr>calls := calls s1 @ [Qdrant_search emb 5]\<rparr>"
  have g: "search_qdrant_by_embedding env emb 5 s1 = (?results, ?s2)"
    using search_qdrant_by_embedding_calls [of env emb 5 s1]
    by (cases "search_qdrant_by_embedding env emb 5 s1") simp
  obtain a where c: "gemini_chat lib env system_prompt_text ?up ?s2 =
      (a, ?s2\<lparr>calls := calls ?s2 @ [Chat_post system_prompt_text ?up]\<rparr>)"
    using gemini_chat_calls [of lib env system_prompt_text ?up ?s2]
    by (cases "gemini_chat lib env system_prompt_text ?up ?s2") simp
  show ?thesis
    by (subst answer_from_embedding_def, subst g)
       (simp add: c split: sum.split option.split)
qed

lemma query_route_state:
  "snd (query_route lib env req s) =
     (if strip (question req) = [] then s
      else case fst (get_or_compute_embedding env (strip (question req)) s) of
             Inr (Some emb) \<Rightarrow>
               snd (answer_from_embedding lib env req (strip (question req)) emb
                      (snd (get_or_compute_embedding env (strip (question req)) s)))
           | _ \<Rightarrow> snd (get_or_compute_embedding env (strip (question req)) s))"
  by (cases "get_or_compute_embedding env (strip (question req)) s")
     (simp add: query_route_def split: sum.split option.split)

lemma query_route_cache:
  "embedding_cache (snd (query_route lib env req s)) =
     embedding_cache (if strip (question req) = [] then s
                      else snd (get_or_compute_embedding env (strip (question req)) s))"
  "cache_file (snd (query_route lib env req s)) =
     cache_file (if strip (question req) = [] then s
                 else snd (get_or_compute_embedding env (strip (question req)) s))"
  by (simp_all add: query_route_state answer_from_embedding_state split: sum.split option.split)

lemma query_route_embed_calls:
  "filter is_embed_call (calls (snd (query_route lib env req s))) =
     filter is_embed_call (calls (if strip (question req) = [] then s
                      else snd (get_or_compute_embedding env (strip (question req)) s)))"
  by (simp add: query_route_state answer_from_embedding_state split: sum.split option.split)

lemma get_embedding_hit: "embedding_cache s q = Some v \<Longrightarrow> get_embedding env q s = (v, s)"
  by (simp add: get_embedding_def)

lemma get_embedding_keeps:
  assumes "embedding_cache s t = Some v"
  shows "embedding_cache (snd (get_embedding env q s)) t = Some v"
proof (cases "embedding_cache s q")
  case (Some w)
  then show ?thesis using assms by (simp add: get_embedding_hit)
next
  case None
  then have "t \<noteq> q" using assms by auto
  then show ?thesis
    using None assms
    by (simp add: get_embedding_def Let_def
          split: co_embed_result.split list.split write_outcome.split)
qed

lemma search_qdrant_state:
  "snd (search_qdrant env q k s) =
     (if truthy (fst (get_embedding env q s))
      then (snd (get_embedding env q s))
             \<lparr>calls := calls (snd (get_embedding env q s)) @ [Qdrant_search (fst (get_embedding env q s)) k]\<rparr>
      else snd (get_embedding env q s))"
  by (cases "get_embedding env q s") (simp add: search_qdrant_def Let_def split: option.split)

lemma generate_answer_state:
  "snd (generate_answer lib env contexts q s) =
     s\<lparr>calls := calls s @ (if contexts = [] then [] else [Co_chat (chat_prompt lib contexts q)])\<rparr>"
  by (simp add: generate_answer_def Let_def split: co_chat_result.split)

lemma query_chatbot_state:
  "snd (query_chatbot lib env req s) =
     (if strip (question req) = [] then s
      else snd (generate_answer lib env
                  (build_contexts req (fst (search_qdrant env (strip (question req)) 5 s)))
                  (strip (question req)) (snd (search_qdrant env (strip (question req)) 5 s))))"
proof (cases "strip (question req) = []")
  case True
  then show ?thesis by (simp add: query_chatbot_def)
next
  case False
  then show ?thesis using query_chatbot_valid [of req "strip (question req)" lib env s] by simp
qed

lemma query_chatbot_cache:
  "embedding_cache (snd (query_chatbot lib env req s)) =
     embedding_cache (if strip (question req) = [] then s
                      else snd (get_embedding env (strip (question req)) s))"
  "cache_file (snd (query_chatbot lib env req s)) =
     cache_file (if strip (question req) = [] then s
                 else snd (get_embedding env (strip (question req)) s))"
  by (simp_all add: query_chatbot_state generate_answer_state search_qdrant_state)

lemma query_chatbot_embed_calls:
  "filter is_embed_call (calls (snd (query_chatbot lib env req s))) =
     filter is_embed_call (calls (if strip (question req) = [] then s
                      else snd (get_embedding env (strip (question req)) s)))"
  by (simp add: query_chatbot_state generate_answer_state search_qdrant_state)

lemma embed_call_fails_result:
  "embed_call_fails (embed_post env ts) \<Longrightarrow>
   gemini_embed_texts env ts s = (Inr None, s\<lparr>calls := calls s @ [Embed_post ts]\<rparr>)"
  by (cases "embed_post env ts") (simp_all add: gemini_embed_texts_def)

lemma unknown_embed_shape_parse:
  assumes "unknown_embed_shape kv"
  shows "parse_embed_response (JObj kv) = Inr None"
proof -
  have m: "map_of kv (py ''data'') = None" "map_of kv (py ''embeddings'') = None" "map_of kv (py ''embedding'') = None"
    using assms by (simp_all add: unknown_embed_shape_def)
  have i: "py_in (py ''embeddings'') (JObj kv) = Inr False" "py_in (py ''embedding'') (JObj kv) = Inr False"
    using m by (simp_all add: map_of_eq_None_iff)
  show ?thesis
    by (simp add: parse_embed_response_def single_embedding_def m i del: py_in.simps)
qed

lemma unknown_embed_shape_result:
  "embed_post env ts = Response 200 (Some (JObj kv)) \<Longrightarrow> unknown_embed_shape kv \<Longrightarrow>
   gemini_embed_texts env ts s = (Inr None, s\<lparr>calls := calls s @ [Embed_post ts]\<rparr>)"
  by (simp add: gemini_embed_texts_def unknown_embed_shape_parse)

lemma query_route_embed_failed:
  assumes "strip (question req) = q" "q \<noteq> []" "embedding_cache s q = None"
    and "gemini_embed_texts env [q] s = (Inr None, s\<lparr>calls := calls s @ [Embed_post [q]]\<rparr>)"
  shows "query_route lib env req s =
           (Inr embed_failed_response, s\<lparr>calls := calls s @ [Embed_post [q]]\<rparr>)"
  using assms by (simp add: query_route_def get_or_compute_embedding_def)

lemma get_embedding_failed:
  assumes "embedding_cache s q = None"
    and "co_embed aenv q = Co_embed_rate_limited \<or> co_embed aenv q = Co_embed_error \<or>
         co_embed aenv q = Co_embeddings []"
  shows "get_embedding aenv q s = (JArr [], s\<lparr>calls := calls s @ [Co_embed q]\<rparr>)"
  using assms by (auto simp: get_embedding_def)

lemma search_qdrant_failed:
  assumes "embedding_cache s q = None"
    and "co_embed aenv q = Co_embed_rate_limited \<or> co_embed aenv q = Co_embed_error \<or>
         co_embed aenv q = Co_embeddings []"
  shows "search_qdrant aenv q k s = ([], s\<lparr>calls := calls s @ [Co_embed q]\<rparr>)"
  by (simp add: search_qdrant_def get_embedding_failed [OF assms])

lemma embed_attempt_failure:
  "attempt_vector resp = None \<Longrightarrow>
   fst (embed_attempt resp w txt s) = None \<and>
   embedding_cache (snd (embed_attempt resp w txt s)) = embedding_cache s \<and>
   cache_file (snd (embed_attempt resp w txt s)) = cache_file s"
  by (cases resp rule: attempt_vector.cases)
     (auto simp: embed_attempt_def sleep_def Let_def split: if_splits write_outcome.split)

lemma embed_attempt_success:
  "attempt_vector resp = Some v \<Longrightarrow>
   embedding_cache (snd (embed_attempt resp w txt s)) = (embedding_cache s)(txt \<mapsto> v) \<and>
   (w = Written \<longrightarrow>
      fst (embed_attempt resp w txt s) = Some v \<and>
      cache_file (snd (embed_attempt resp w txt s)) = (embedding_cache s)(txt \<mapsto> v))"
  by (cases resp rule: attempt_vector.cases)
     (auto simp: embed_attempt_def sleep_def Let_def split: if_splits write_outcome.split)







lemma embed_attempt_429:
  "embed_attempt (Response 429 b) w t s = (None, s\<lparr>calls := calls s @ [Embed_text_post t, Sleep 60]\<rparr>)"
  by (simp add: embed_attempt_def sleep_def)

lemma embed_loop_rate_limited:
  "(\<And>i. i < k \<Longrightarrow> \<exists>b. gem_post env (n + i) = Response 429 b) \<Longrightarrow>
   embed_loop env t n s =
     embed_loop env t (n + k)
       (s\<lparr>calls := calls s @ concat (replicate k [Embed_text_post t, Sleep 60])\<rparr>)"
proof (induction k arbitrary: n s)
  case 0
  then show ?case by simp
next
  case (Suc k)
  from Suc.prems [of 0] obtain b where b: "gem_post env n = Response 429 b" by auto
  have step: "embed_loop env t n s =
      embed_loop env t (Suc n) (s\<lparr>calls := calls s @ [Embed_text_post t, Sleep 60]\<rparr>)"
    by (subst embed_loop.simps) (simp add: b embed_attempt_429)
  have "\<exists>b. gem_post env (Suc n + i) = Response 429 b" if "i < k" for i
    using Suc.prems [of "Suc i"] that by simp
  then have "embed_loop env t (Suc n) (s\<lparr>calls := calls s @ [Embed_text_post t, Sleep 60]\<rparr>) =
      embed_loop env t (Suc n + k)
        ((s\<lparr>calls := calls s @ [Embed_text_post t, Sleep 60]\<rparr>)
           \<lparr>calls := calls (s\<lparr>calls := calls s @ [Embed_text_post t, Sleep 60]\<rparr>) @
              concat (replicate k [Embed_text_post t, Sleep 60])\<rparr>)"
    by (rule Suc.IH)
  with step show ?case by simp
qed

lemma embed_attempt_returns:
  "embed_attempt resp w t s = (Some v, s') \<Longrightarrow> attempt_vector resp = Some v \<and> w = Written"
  by (cases resp rule: attempt_vector.cases)
     (auto simp: embed_attempt_def sleep_def Let_def split: if_splits write_outcome.splits)

lemma embed_loop_success:
  assumes "attempt_vector (gem_post env n) = Some v" "gem_write env n = Written"
  shows "embed_loop env t n s =
     Some (v, s\<lparr>calls := calls s @ [Embed_text_post t],
                 embedding_cache := (embedding_cache s)(t \<mapsto> v),
                 cache_file := (embedding_cache s)(t \<mapsto> v)\<rparr>)"
proof -
  have "embed_attempt (gem_post env n) Written t s =
      (Some v, s\<lparr>calls := calls s @ [Embed_text_post t],
                 embedding_cache := (embedding_cache s)(t \<mapsto> v),
                 cache_file := (embedding_cache s)(t \<mapsto> v)\<rparr>)"
    using assms(1)
    by (cases "gem_post env n" rule: attempt_vector.cases)
       (auto simp: embed_attempt_def Let_def split: if_splits)
  then show ?thesis
    by (subst embed_loop.simps) (simp add: assms(2))
qed

lemma embed_loop_returns_fst:
  "embed_loop env t n s = Some y \<Longrightarrow>
   \<exists>m. attempt_vector (gem_post env m) = Some (fst y) \<and> gem_write env m = Written"
proof (induction rule: embed_loop.raw_induct [rotated 1, consumes 1, case_names step])
  case (step loop env t n s y)
  show ?case
  proof (cases "embed_attempt (gem_post env n) (gem_write env n) t s")
    case (Pair r s1)
    show ?thesis
    proof (cases r)
      case None
      with Pair step(2) have "loop env t (Suc n) s1 = Some y" by simp
      then show ?thesis by (rule step(1))
    next
      case (Some u)
      with Pair step(2) have "embed_attempt (gem_post env n) (gem_write env n) t s = (Some (fst y), snd y)"
        by auto
      then show ?thesis using embed_attempt_returns by blast
    qed
  qed
qed

lemma embed_loop_returns:
  "embed_loop env t n s = Some (v, s') \<Longrightarrow>
   \<exists>m. attempt_vector (gem_post env m) = Some v \<and> gem_write env m = Written"
  using embed_loop_returns_fst [of env t n s "(v, s')"] by simp

lemma attempt_vector_truthy: "attempt_vector resp = Some v \<Longrightarrow> truthy v"
  by (cases resp rule: attempt_vector.cases) (auto split: if_splits)

lemma get_gemini_embedding_miss:
  "embedding_cache s t = None \<Longrightarrow> get_gemini_embedding env t s = embed_loop env t 0 s"
  by (simp add: get_gemini_embedding_def)


section \<open>Evaluating the sample inputs\<close>

lemmas sample_defs =
  sample_main_env_def sample_app_env_def sample_lib_def state0_def sample_vec_def
  embed_ok_def chat_ok_def chat_odd_def rate_limited_def sample_points_def
  plain_request_def selection_request_def sample_q_def
  no_hits_env_def no_hits_app_env_def hits_env_def hits_app_env_def
  limited_env_def limited_app_env_def odd_chat_env_def

lemmas strip_defs = strip_def rstrip_def lstrip_def py_isspace_def py_def

lemma strip_plain: "strip (py ''What is ROS 2?'') = py ''What is ROS 2?''"
  by (simp add: strip_defs)

lemma strip_padded: "strip (py '' What is ROS 2? '') = py ''What is ROS 2?''"
  by (simp add: strip_defs)

lemma strip_selection: "strip (py '' ROS 2 nodes '') = py ''ROS 2 nodes''"
  by (simp add: strip_defs)




lemma strip_reply: "strip (py ''From the selection.'') = py ''From the selection.''"
  by (simp add: strip_defs)

lemma selected_passage_plain: "selected_passage plain_request = None"
  by (simp add: selected_passage_def plain_request_def)

lemma selected_passage_selection: "selected_passage selection_request = Some (py ''ROS 2 nodes'')"
  by (simp add: selected_passage_def selection_request_def strip_selection)

lemma question_plain: "strip (question plain_request) = sample_q"
  by (simp add: plain_request_def strip_plain sample_q_def)

lemma question_selection: "strip (question selection_request) = sample_q"
  by (simp add: selection_request_def strip_padded sample_q_def)

lemma sample_q_nonempty: "sample_q \<noteq> []"
  by (simp add: sample_q_def)

lemma embed_ok_parse:
  "gemini_embed_texts (sample_main_env embed_ok r c) ts s =
     (Inr (Some [sample_vec]), s\<lparr>calls := calls s @ [Embed_post ts]\<rparr>)"
  by (simp add: gemini_embed_texts_def parse_embed_response_def sample_main_env_def embed_ok_def)

lemma embed_ok_first:
  "get_or_compute_embedding (sample_main_env embed_ok r c) q state0 =
     (Inr (Some sample_vec),
      \<lparr>embedding_cache = [q \<mapsto> sample_vec], cache_file = [q \<mapsto> sample_vec],
       calls = [Embed_post [q]]\<rparr>)"
proof -
  have v: "sample_vec \<noteq> JNull" by (simp add: sample_vec_def)
  have w: "cache_write (sample_main_env embed_ok r c) = Written"
    by (simp add: sample_main_env_def)
  show ?thesis
    by (simp add: get_or_compute_embedding_def embed_ok_parse v w save_cache_def state0_def)
qed

lemma app_embed_first:
  "get_embedding (sample_app_env (Co_embeddings [sample_vec]) r c) q state0 =
     (sample_vec,
      \<lparr>embedding_cache = [q \<mapsto> sample_vec], cache_file = [q \<mapsto> sample_vec],
       calls = [Co_embed q]\<rparr>)"
  by (simp add: get_embedding_def sample_app_env_def state0_def)

lemma app_search_first:
  "search_qdrant (sample_app_env (Co_embeddings [sample_vec]) r c) q k state0 =
     ((case r of None \<Rightarrow> [] | Some rs \<Rightarrow> map app_chunk rs),
      \<lparr>embedding_cache = [q \<mapsto> sample_vec], cache_file = [q \<mapsto> sample_vec],
       calls = [Co_embed q, Qdrant_search sample_vec k]\<rparr>)"
proof -
  have t: "truthy sample_vec" by (simp add: sample_vec_def)
  have q: "app_qdrant_search (sample_app_env (Co_embeddings [sample_vec]) r c) sample_vec k = r"
    by (simp add: sample_app_env_def)
  show ?thesis
    by (simp add: search_qdrant_def app_embed_first t q split: option.split)
qed


lemma selected_text_selection: "selected_text selection_request = Some (py '' ROS 2 nodes '')"
  by (simp add: selection_request_def)

lemma main_search_first:
  "search_qdrant_by_embedding (sample_main_env e r c) emb k s =
     ((case r of None \<Rightarrow> [] | Some rs \<Rightarrow> map main_chunk rs),
      s\<lparr>calls := calls s @ [Qdrant_search emb k]\<rparr>)"
  by (simp add: search_qdrant_by_embedding_def sample_main_env_def split: option.split)


lemma hits_embed: "fst (gemini_embed_texts hits_env [q] s) = Inr (Some [sample_vec])"
  by (simp add: hits_env_def embed_ok_parse)

lemma sample_vec_not_null: "sample_vec \<noteq> JNull"
  by (simp add: sample_vec_def)


lemma limited_fails: "embed_call_fails (embed_post limited_env ts)"
  by (simp add: limited_env_def sample_main_env_def rate_limited_def)

lemma state0_miss: "embedding_cache state0 q = None"
  by (simp add: state0_def)

lemma calls_state0: "calls state0 = []"
  by (simp add: state0_def)

lemma limited_app_embed: "co_embed limited_app_env q = Co_embed_rate_limited"
  by (simp add: limited_app_env_def sample_app_env_def)






lemma sample_script_posts:
  "gem_post sample_script_env 0 = Response 429 None"
  "gem_post sample_script_env 1 = Response 429 None"
  "attempt_vector (gem_post sample_script_env 2) = Some sample_vec"
  "gem_write sample_script_env n = Written"
  by (simp_all add: sample_script_env_def rate_limited_def dict_get_def sample_vec_def)

lemma stuck_script_posts: "gem_post stuck_script_env m = Response 429 None"
  by (simp add: stuck_script_env_def rate_limited_def)


section \<open>A search without results\<close>

text \<open>
  Claim C2, as amended. In main.py, when the search for a valid question returns no
  chunk, the response is the fixed answer "No relevant passages found in the textbook."
  with an empty source list, sent with status 200, and no call to the chat model is
  made. In app.py the source list is empty as well; when no non-blank selected text
  came with the request the answer is the fixed message of \<open>generate_answer\<close> and the
  chat model is not called, but when a non-blank selected text came with it the chat
  model is called once, with a prompt that ends with the trimmed selected text as its
  only passage, the question and "Answer:"; the answer is then the trimmed reply of the
  chat model, or one of the two fixed messages of \<open>generate_answer\<close> when that call
  raises.
\<close>

theorem no_chunks_response:
  "(strip (question req) \<noteq> [] \<and>
    fst (get_or_compute_embedding env (strip (question req)) s) = Inr (Some emb) \<and>
    fst (search_qdrant_by_embedding env emb 5
           (snd (get_or_compute_embedding env (strip (question req)) s))) = [] \<longrightarrow>
      fst (query_route lib env req s) =
        Inr \<lparr>answer = py ''No relevant passages found in the textbook.'', sources = [],
             meta = [(py ''source_count'', JInt 0)]\<rparr> \<and>
      status_code (fst (query_route lib env req s)) = 200 \<and>
      filter is_chat_call (calls (snd (query_route lib env req s))) = filter is_chat_call (calls s)) \<and>
   (strip (question req) \<noteq> [] \<and>
    fst (search_qdrant aenv (strip (question req)) 5 s) = [] \<and>
    selected_passage req = None \<longrightarrow>
      fst (query_chatbot lib aenv req s) = Inr \<lparr>app_answer = py ''I'' @ [0x27] @ py ''m so'' @ py ''rry, I couldn'' @ [0x27] @
                    py ''t find relevant information or the API rate limit was reached.'', app_sources = []\<rparr> \<and>
      filter is_chat_call (calls (snd (query_chatbot lib aenv req s))) = filter is_chat_call (calls s)) \<and>
   (strip (question req) \<noteq> [] \<and>
    fst (search_qdrant aenv (strip (question req)) 5 s) = [] \<and>
    selected_passage req = Some t \<longrightarrow>
      fst (query_chatbot lib aenv req s) =
        Inr \<lparr>app_answer =
               (case co_chat aenv (chat_prompt lib [JStr t] (strip (question req))) of
                          Co_text reply \<Rightarrow> strip reply
                        | Co_chat_rate_limited \<Rightarrow>
                            py ''API rate limit reached. Please try again in a few seconds.''
                        | Co_chat_error \<Rightarrow>
                            py ''Sorry, there was an issue generating the answer. Please try again.''),
             app_sources = []\<rparr> \<and>
      filter is_chat_call (calls (snd (query_chatbot lib aenv req s))) =
        filter is_chat_call (calls s) @ [Co_chat (chat_prompt lib [JStr t] (strip (question req)))] \<and>
      suffix (py ''Context from the textbook: Passage 1:'' @ [nl] @ t @ [nl] @
              py ''Question: '' @ strip (question req) @ [nl] @ py ''Answer:'' @ [nl])
        (chat_prompt lib [JStr t] (strip (question req))))"
proof (intro conjI impI)
  assume a: "strip (question req) \<noteq> [] \<and>
    fst (get_or_compute_embedding env (strip (question req)) s) = Inr (Some emb) \<and>
    fst (search_qdrant_by_embedding env emb 5
           (snd (get_or_compute_embedding env (strip (question req)) s))) = []"
  let ?q = "strip (question req)"
  let ?s1 = "snd (get_or_compute_embedding env ?q s)"
  have r: "query_route lib env req s =
      (Inr no_passages_response, ?s1\<lparr>calls := calls ?s1 @ [Qdrant_search emb 5]\<rparr>)"
    using a query_route_valid [of req ?q env s emb lib] answer_from_embedding_empty [of env emb ?s1 lib req ?q]
    by simp
  show "fst (query_route lib env req s) =
        Inr \<lparr>answer = py ''No relevant passages found in the textbook.'', sources = [],
             meta = [(py ''source_count'', JInt 0)]\<rparr>"
    by (simp add: r no_passages_response_def)
  show "status_code (fst (query_route lib env req s)) = 200"
    by (simp add: r)
  show "filter is_chat_call (calls (snd (query_route lib env req s))) = filter is_chat_call (calls s)"
    by (simp add: r get_or_compute_embedding_no_chat)
next
  assume a: "strip (question req) \<noteq> [] \<and>
    fst (search_qdrant aenv (strip (question req)) 5 s) = [] \<and> selected_passage req = None"
  let ?q = "strip (question req)"
  have c: "build_contexts req [] = []"
    using a by (simp add: build_contexts_def)
  have r: "query_chatbot lib aenv req s =
      (Inr \<lparr>app_answer = py ''I'' @ [0x27] @ py ''m so'' @ py ''rry, I couldn'' @ [0x27] @
                    py ''t find relevant information or the API rate limit was reached.'', app_sources = []\<rparr>, snd (search_qdrant aenv ?q 5 s))"
    using a query_chatbot_valid [of req ?q lib aenv s]
    by (simp add: c generate_answer_empty no_context_answer_def)
  show "fst (query_chatbot lib aenv req s) = Inr \<lparr>app_answer = py ''I'' @ [0x27] @ py ''m so'' @ py ''rry, I couldn'' @ [0x27] @
                    py ''t find relevant information or the API rate limit was reached.'', app_sources = []\<rparr>"
    by (simp add: r)
  show "filter is_chat_call (calls (snd (query_chatbot lib aenv req s))) = filter is_chat_call (calls s)"
    by (simp add: r search_qdrant_no_chat)
next
  assume a: "strip (question req) \<noteq> [] \<and>
    fst (search_qdrant aenv (strip (question req)) 5 s) = [] \<and> selected_passage req = Some t"
  let ?q = "strip (question req)"
  have c: "build_contexts req [] = [JStr t]"
    using a by (simp add: build_contexts_def)
  note v = query_chatbot_valid [of req ?q lib aenv s]
  show "fst (query_chatbot lib aenv req s) =
        Inr \<lparr>app_answer =
               (case co_chat aenv (chat_prompt lib [JStr t] (strip (question req))) of
                          Co_text reply \<Rightarrow> strip reply
                        | Co_chat_rate_limited \<Rightarrow>
                            py ''API rate limit reached. Please try again in a few seconds.''
                        | Co_chat_error \<Rightarrow>
                            py ''Sorry, there was an issue generating the answer. Please try again.''),
             app_sources = []\<rparr>"
    using a v by (simp add: c generate_answer_def split: co_chat_result.split)
  show "filter is_chat_call (calls (snd (query_chatbot lib aenv req s))) =
        filter is_chat_call (calls s) @ [Co_chat (chat_prompt lib [JStr t] (strip (question req)))]"
    using a v by (simp add: c generate_answer_calls search_qdrant_no_chat)
  show "suffix (py ''Context from the textbook: Passage 1:'' @ [nl] @ t @ [nl] @
              py ''Question: '' @ strip (question req) @ [nl] @ py ''Answer:'' @ [nl])
        (chat_prompt lib [JStr t] (strip (question req)))"
    using chat_prompt_selection [where t = t and cs = "[]" and lib = lib and q = ?q] by simp
qed


theorem no_chunks_response_witness:
  "strip (question plain_request) \<noteq> [] \<and>
   fst (get_or_compute_embedding no_hits_env (strip (question plain_request)) state0) = Inr (Some sample_vec) \<and>
   fst (search_qdrant_by_embedding no_hits_env sample_vec 5
          (snd (get_or_compute_embedding no_hits_env (strip (question plain_request)) state0))) = [] \<and>
   fst (query_route sample_lib no_hits_env plain_request state0) =
     Inr \<lparr>answer = py ''No relevant passages found in the textbook.'', sources = [],
          meta = [(py ''source_count'', JInt 0)]\<rparr> \<and>
   filter is_chat_call (calls (snd (query_route sample_lib no_hits_env plain_request state0))) =
     filter is_chat_call (calls state0) \<and>
   fst (search_qdrant no_hits_app_env (strip (question plain_request)) 5 state0) = [] \<and>
   selected_passage plain_request = None \<and>
   fst (query_chatbot sample_lib no_hits_app_env plain_request state0) =
     Inr \<lparr>app_answer = py ''I'' @ [0x27] @ py ''m so'' @ py ''rry, I couldn'' @ [0x27] @
                    py ''t find relevant information or the API rate limit was reached.'', app_sources = []\<rparr> \<and>
   filter is_chat_call (calls (snd (query_chatbot sample_lib no_hits_app_env plain_request state0))) =
     filter is_chat_call (calls state0) \<and>
   strip (question selection_request) \<noteq> [] \<and>
   fst (search_qdrant no_hits_app_env (strip (question selection_request)) 5 state0) = [] \<and>
   selected_passage selection_request = Some (py ''ROS 2 nodes'') \<and>
   fst (query_chatbot sample_lib no_hits_app_env selection_request state0) =
     Inr \<lparr>app_answer = py ''From the selection.'', app_sources = []\<rparr> \<and>
   filter is_chat_call (calls (snd (query_chatbot sample_lib no_hits_app_env selection_request state0))) =
     filter is_chat_call (calls state0) @
       [Co_chat (chat_prompt sample_lib [JStr (py ''ROS 2 nodes'')] (strip (question selection_request)))] \<and>
   suffix (py ''Context from the textbook: Passage 1:'' @ [nl] @ py ''ROS 2 nodes'' @ [nl] @
           py ''Question: '' @ strip (question selection_request) @ [nl] @ py ''Answer:'' @ [nl])
     (chat_prompt sample_lib [JStr (py ''ROS 2 nodes'')] (strip (question selection_request)))"
proof -
  note A = no_chunks_response [where req = plain_request and env = no_hits_env and s = state0
      and emb = sample_vec and lib = sample_lib and aenv = no_hits_app_env]
  note B = no_chunks_response [where req = selection_request and env = no_hits_env and s = state0
      and emb = sample_vec and lib = sample_lib and aenv = no_hits_app_env and t = "py ''ROS 2 nodes''"]
  have q1: "strip (question plain_request) \<noteq> []" "strip (question selection_request) \<noteq> []"
    by (simp_all add: question_plain question_selection sample_q_nonempty)
  have e: "fst (get_or_compute_embedding no_hits_env (strip (question plain_request)) state0) =
      Inr (Some sample_vec)"
    by (simp add: no_hits_env_def embed_ok_first)
  have m: "fst (search_qdrant_by_embedding no_hits_env sample_vec 5
          (snd (get_or_compute_embedding no_hits_env (strip (question plain_request)) state0))) = []"
    by (simp add: search_qdrant_by_embedding_def no_hits_env_def sample_main_env_def)
  have a1: "fst (search_qdrant no_hits_app_env (strip (question plain_request)) 5 state0) = []"
    and a2: "fst (search_qdrant no_hits_app_env (strip (question selection_request)) 5 state0) = []"
    by (simp_all add: no_hits_app_env_def app_search_first)
  have hB: "strip (question selection_request) \<noteq> [] \<and>
      fst (search_qdrant no_hits_app_env (strip (question selection_request)) 5 state0) = [] \<and>
      selected_passage selection_request = Some (py ''ROS 2 nodes'')"
    using q1 a2 selected_passage_selection by simp
  note b3 = B [THEN conjunct2, THEN conjunct2, rule_format, OF hB]
  have c: "co_chat no_hits_app_env p = Co_text (py ''From the selection.'')" for p
    by (simp add: no_hits_app_env_def sample_app_env_def)
  have b3a: "fst (query_chatbot sample_lib no_hits_app_env selection_request state0) =
     Inr \<lparr>app_answer = py ''From the selection.'', app_sources = []\<rparr>"
    using b3 [THEN conjunct1] by (simp add: c strip_reply)
  note b3b = b3 [THEN conjunct2]
  from A q1 e m a1 a2 selected_passage_plain selected_passage_selection b3a b3b
  show ?thesis by blast
qed

theorem selection_without_chunks_counterexample:
  "fst (search_qdrant no_hits_app_env sample_q 5 state0) = [] \<and>
   strip (question selection_request) = sample_q \<and>
   fst (query_chatbot sample_lib no_hits_app_env selection_request state0) =
     Inr \<lparr>app_answer = py ''From the selection.'', app_sources = []\<rparr> \<and>
   calls (snd (query_chatbot sample_lib no_hits_app_env selection_request state0)) =
     [Co_embed sample_q, Qdrant_search sample_vec 5,
      Co_chat (chat_prompt sample_lib [JStr (py ''ROS 2 nodes'')] sample_q)]"
proof -
  have s: "search_qdrant no_hits_app_env sample_q 5 state0 =
      ([], \<lparr>embedding_cache = [sample_q \<mapsto> sample_vec], cache_file = [sample_q \<mapsto> sample_vec],
            calls = [Co_embed sample_q, Qdrant_search sample_vec 5]\<rparr>)"
    by (simp add: no_hits_app_env_def app_search_first)
  have c: "co_chat no_hits_app_env p = Co_text (py ''From the selection.'')" for p
    by (simp add: no_hits_app_env_def sample_app_env_def)
  note t = strip_reply
  have b: "build_contexts selection_request [] = [JStr (py ''ROS 2 nodes'')]"
    by (simp add: build_contexts_def selected_passage_selection)
  have r: "query_chatbot sample_lib no_hits_app_env selection_request state0 =
      (Inr \<lparr>app_answer = py ''From the selection.'', app_sources = []\<rparr>,
       \<lparr>embedding_cache = [sample_q \<mapsto> sample_vec], cache_file = [sample_q \<mapsto> sample_vec],
        calls = [Co_embed sample_q, Qdrant_search sample_vec 5,
                 Co_chat (chat_prompt sample_lib [JStr (py ''ROS 2 nodes'')] sample_q)]\<rparr>)"
    using query_chatbot_valid [OF question_selection sample_q_nonempty, of sample_lib no_hits_app_env state0]
    by (simp add: s b generate_answer_def c t)
  show ?thesis by (simp add: s r question_selection)
qed

section \<open>The selected text in the context\<close>

text \<open>
  Claim C3, as amended. Let the request carry a selected text that is not blank, and a
  valid question. In app.py the chat model is then called with a prompt built from the
  trimmed selected text followed by the texts of the retrieved chunks, however many
  chunks the search returned, none included. In main.py the same holds whenever the
  search returned at least one chunk. The text of such a prompt is spelled out: the
  user prompt of main.py is "Context:", a newline, "Passage 1:", a newline, the
  selected text, then the retrieved chunks as passages 2, 3, ..., then the question and
  "Answer:"; the prompt of app.py ends with "Context from the textbook: Passage 1:", a
  newline, the selected text, the retrieved chunks as passages 2, 3, ..., the question
  and "Answer:".
\<close>

theorem selected_text_first:
  "(selected_text req = Some raw \<and> strip raw \<noteq> [] \<and> strip (question req) \<noteq> [] \<longrightarrow>
      calls (snd (query_chatbot lib aenv req s)) =
        calls (snd (search_qdrant aenv (strip (question req)) 5 s)) @
          [Co_chat (chat_prompt lib
             (JStr (strip raw) # map c_text (fst (search_qdrant aenv (strip (question req)) 5 s)))
             (strip (question req)))]) \<and>
   (selected_text req = Some raw \<and> strip raw \<noteq> [] \<and> strip (question req) \<noteq> [] \<and>
    fst (get_or_compute_embedding env (strip (question req)) s) = Inr (Some emb) \<and>
    fst (search_qdrant_by_embedding env emb 5
           (snd (get_or_compute_embedding env (strip (question req)) s))) = results \<and>
    results \<noteq> [] \<longrightarrow>
      calls (snd (query_route lib env req s)) =
        calls (snd (get_or_compute_embedding env (strip (question req)) s)) @
          [Qdrant_search emb 5,
           Chat_post system_prompt_text
             (user_prompt_text lib (JStr (strip raw) # map c_text results) (strip (question req)))]) \<and>
   prefix (py ''Passage 1:'' @ [nl] @ t) (context_str lib (JStr t # cs)) \<and>
   user_prompt_text lib (JStr t # cs) q =
     py ''Context:'' @ [nl] @ py ''Passage 1:'' @ [nl] @ t @
     concat (map (\<lambda>p. [nl, nl] @ py ''Passage '' @ str_nat (fst p + 1) @ py '':'' @ [nl] @ py_str lib (snd p))
               (enumerate 1 cs)) @
     [nl, nl] @ py ''Question: '' @ q @ [nl] @ py ''Answer:'' \<and>
   suffix (py ''Context from the textbook: Passage 1:'' @ [nl] @ t @
           concat (map (\<lambda>p. [nl, nl] @ py ''Passage '' @ str_nat (fst p + 1) @ py '':'' @ [nl] @ py_str lib (snd p))
                     (enumerate 1 cs)) @
           [nl] @ py ''Question: '' @ q @ [nl] @ py ''Answer:'' @ [nl])
     (chat_prompt lib (JStr t # cs) q)"
proof (intro conjI impI)
  assume a: "selected_text req = Some raw \<and> strip raw \<noteq> [] \<and> strip (question req) \<noteq> []"
  let ?q = "strip (question req)"
  have b: "build_contexts req rs = JStr (strip raw) # map c_text rs" for rs
    using a by (simp add: build_contexts_def selected_passage_Some)
  show "calls (snd (query_chatbot lib aenv req s)) =
        calls (snd (search_qdrant aenv ?q 5 s)) @
          [Co_chat (chat_prompt lib (JStr (strip raw) # map c_text (fst (search_qdrant aenv ?q 5 s))) ?q)]"
    using a query_chatbot_valid [of req ?q lib aenv s]
    by (simp add: b generate_answer_calls)
next
  assume a: "selected_text req = Some raw \<and> strip raw \<noteq> [] \<and> strip (question req) \<noteq> [] \<and>
    fst (get_or_compute_embedding env (strip (question req)) s) = Inr (Some emb) \<and>
    fst (search_qdrant_by_embedding env emb 5
           (snd (get_or_compute_embedding env (strip (question req)) s))) = results \<and>
    results \<noteq> []"
  let ?q = "strip (question req)"
  let ?s1 = "snd (get_or_compute_embedding env ?q s)"
  have b: "build_contexts req results = JStr (strip raw) # map c_text results"
    using a by (simp add: build_contexts_def selected_passage_Some)
  have r: "query_route lib env req s = answer_from_embedding lib env req ?q emb ?s1"
    using a by (intro query_route_valid) simp_all
  have c: "calls (snd (answer_from_embedding lib env req ?q emb ?s1)) =
           calls ?s1 @ [Qdrant_search emb 5,
                       Chat_post system_prompt_text (user_prompt_text lib (build_contexts req results) ?q)]"
    using a by (intro answer_from_embedding_calls) simp_all
  show "calls (snd (query_route lib env req s)) =
        calls ?s1 @ [Qdrant_search emb 5,
           Chat_post system_prompt_text (user_prompt_text lib (JStr (strip raw) # map c_text results) ?q)]"
    by (simp only: r c b)
next
  show "prefix (py ''Passage 1:'' @ [nl] @ t) (context_str lib (JStr t # cs))"
    by (rule context_str_first)
next
  show "user_prompt_text lib (JStr t # cs) q =
     py ''Context:'' @ [nl] @ py ''Passage 1:'' @ [nl] @ t @
     concat (map (\<lambda>p. [nl, nl] @ py ''Passage '' @ str_nat (fst p + 1) @ py '':'' @ [nl] @ py_str lib (snd p))
               (enumerate 1 cs)) @
     [nl, nl] @ py ''Question: '' @ q @ [nl] @ py ''Answer:''"
    using user_prompt_selection [where lib = lib and t = t and cs = cs and q = q]
    by (simp add: passage_def)
next
  show "suffix (py ''Context from the textbook: Passage 1:'' @ [nl] @ t @
           concat (map (\<lambda>p. [nl, nl] @ py ''Passage '' @ str_nat (fst p + 1) @ py '':'' @ [nl] @ py_str lib (snd p))
                     (enumerate 1 cs)) @
           [nl] @ py ''Question: '' @ q @ [nl] @ py ''Answer:'' @ [nl])
     (chat_prompt lib (JStr t # cs) q)"
    using chat_prompt_selection [where lib = lib and t = t and cs = cs and q = q]
    by (simp add: passage_def)
qed


theorem selected_text_first_witness:
  "selected_text selection_request = Some (py '' ROS 2 nodes '') \<and>
   strip (py '' ROS 2 nodes '') \<noteq> [] \<and>
   strip (question selection_request) \<noteq> [] \<and>
   fst (search_qdrant no_hits_app_env (strip (question selection_request)) 5 state0) = [] \<and>
   calls (snd (query_chatbot sample_lib no_hits_app_env selection_request state0)) =
     calls (snd (search_qdrant no_hits_app_env (strip (question selection_request)) 5 state0)) @
       [Co_chat (chat_prompt sample_lib
          (JStr (strip (py '' ROS 2 nodes '')) #
             map c_text (fst (search_qdrant no_hits_app_env (strip (question selection_request)) 5 state0)))
          (strip (question selection_request)))] \<and>
   fst (get_or_compute_embedding hits_env (strip (question selection_request)) state0) = Inr (Some sample_vec) \<and>
   fst (search_qdrant_by_embedding hits_env sample_vec 5
          (snd (get_or_compute_embedding hits_env (strip (question selection_request)) state0))) =
     map main_chunk sample_points \<and>
   map main_chunk sample_points \<noteq> [] \<and>
   calls (snd (query_route sample_lib hits_env selection_request state0)) =
     calls (snd (get_or_compute_embedding hits_env (strip (question selection_request)) state0)) @
       [Qdrant_search sample_vec 5,
        Chat_post system_prompt_text
          (user_prompt_text sample_lib
             (JStr (strip (py '' ROS 2 nodes '')) # map c_text (map main_chunk sample_points))
             (strip (question selection_request)))] \<and>
   prefix (py ''Passage 1:'' @ [nl] @ py ''ROS 2 nodes'')
     (context_str sample_lib (JStr (py ''ROS 2 nodes'') # map c_text (map main_chunk sample_points))) \<and>
   user_prompt_text sample_lib [JStr (py ''ROS 2 nodes''), JStr (py ''Nodes talk over topics.'')] (py ''What is ROS 2?'') =
     py ''Context:'' @ [nl] @ py ''Passage 1:'' @ [nl] @ py ''ROS 2 nodes'' @ [nl, nl] @
     py ''Passage 2:'' @ [nl] @ py ''Nodes talk over topics.'' @ [nl, nl] @
     py ''Question: What is ROS 2?'' @ [nl] @ py ''Answer:'' \<and>
   suffix (py ''Context from the textbook: Passage 1:'' @ [nl] @ py ''ROS 2 nodes'' @ [nl] @
           py ''Question: What is ROS 2?'' @ [nl] @ py ''Answer:'' @ [nl])
     (chat_prompt sample_lib [JStr (py ''ROS 2 nodes'')] (py ''What is ROS 2?''))"
proof -
  note T = selected_text_first [where req = selection_request and raw = "py '' ROS 2 nodes ''"
      and lib = sample_lib and aenv = no_hits_app_env and s = state0 and env = hits_env
      and emb = sample_vec and results = "map main_chunk sample_points"
      and t = "py ''ROS 2 nodes''" and cs = "map c_text (map main_chunk sample_points)"]
  have h1: "strip (py '' ROS 2 nodes '') \<noteq> []" by (simp add: strip_selection)
  have h2: "strip (question selection_request) \<noteq> []"
    by (simp add: question_selection sample_q_nonempty)
  have h3: "fst (search_qdrant no_hits_app_env (strip (question selection_request)) 5 state0) = []"
    by (simp add: no_hits_app_env_def app_search_first)
  have h4: "fst (get_or_compute_embedding hits_env (strip (question selection_request)) state0) =
      Inr (Some sample_vec)"
    by (simp add: hits_env_def embed_ok_first)
  have h5: "fst (search_qdrant_by_embedding hits_env sample_vec 5
          (snd (get_or_compute_embedding hits_env (strip (question selection_request)) state0))) =
     map main_chunk sample_points"
    by (simp add: hits_env_def main_search_first)
  have h6: "map main_chunk sample_points \<noteq> []" by (simp add: sample_points_def)
  note U = selected_text_first [where lib = sample_lib and t = "py ''ROS 2 nodes''"
      and cs = "[JStr (py ''Nodes talk over topics.'')]" and q = "py ''What is ROS 2?''",
      THEN conjunct2, THEN conjunct2, THEN conjunct2, THEN conjunct1]
  note V = selected_text_first [where lib = sample_lib and t = "py ''ROS 2 nodes''"
      and cs = "[]" and q = "py ''What is ROS 2?''",
      THEN conjunct2, THEN conjunct2, THEN conjunct2, THEN conjunct2]
  have u: "user_prompt_text sample_lib [JStr (py ''ROS 2 nodes''), JStr (py ''Nodes talk over topics.'')] (py ''What is ROS 2?'') =
     py ''Context:'' @ [nl] @ py ''Passage 1:'' @ [nl] @ py ''ROS 2 nodes'' @ [nl, nl] @
     py ''Passage 2:'' @ [nl] @ py ''Nodes talk over topics.'' @ [nl, nl] @
     py ''Question: What is ROS 2?'' @ [nl] @ py ''Answer:''"
    using U by (simp add: enumerate_eq_zip str_nat_2)
  have v: "suffix (py ''Context from the textbook: Passage 1:'' @ [nl] @ py ''ROS 2 nodes'' @ [nl] @
           py ''Question: What is ROS 2?'' @ [nl] @ py ''Answer:'' @ [nl])
     (chat_prompt sample_lib [JStr (py ''ROS 2 nodes'')] (py ''What is ROS 2?''))"
    using V by simp
  note T3 = T [THEN conjunct2, THEN conjunct2, THEN conjunct1]
  note T1 = T [THEN conjunct1]
  note T2 = T [THEN conjunct2, THEN conjunct1]
  from T1 T2 T3 u v selected_text_selection h1 h2 h3 h4 h5 h6 show ?thesis by blast
qed

theorem selection_dropped_counterexample:
  "selected_text selection_request = Some (py '' ROS 2 nodes '') \<and>
   strip (py '' ROS 2 nodes '') = py ''ROS 2 nodes'' \<and>
   strip (question selection_request) = sample_q \<and>
   fst (query_route sample_lib no_hits_env selection_request state0) =
     Inr \<lparr>answer = py ''No relevant passages found in the textbook.'', sources = [],
          meta = [(py ''source_count'', JInt 0)]\<rparr> \<and>
   calls (snd (query_route sample_lib no_hits_env selection_request state0)) =
     [Embed_post [sample_q], Qdrant_search sample_vec 5]"
proof -
  have e: "get_or_compute_embedding no_hits_env sample_q state0 =
     (Inr (Some sample_vec),
      \<lparr>embedding_cache = [sample_q \<mapsto> sample_vec], cache_file = [sample_q \<mapsto> sample_vec],
       calls = [Embed_post [sample_q]]\<rparr>)"
    by (simp add: no_hits_env_def embed_ok_first)
  have m: "fst (search_qdrant_by_embedding no_hits_env sample_vec 5 s) = []" for s
    by (simp add: no_hits_env_def main_search_first)
  have r: "query_route sample_lib no_hits_env selection_request state0 =
      (Inr no_passages_response,
       \<lparr>embedding_cache = [sample_q \<mapsto> sample_vec], cache_file = [sample_q \<mapsto> sample_vec],
        calls = [Embed_post [sample_q], Qdrant_search sample_vec 5]\<rparr>)"
    using query_route_valid [OF question_selection sample_q_nonempty, of no_hits_env state0 sample_vec sample_lib]
    by (simp add: e answer_from_embedding_empty m)
  show ?thesis
    by (simp add: r selected_text_selection strip_selection question_selection no_passages_response_def)
qed

section \<open>The embedding cache\<close>

text \<open>
  Claim C4. When a text \<open>q\<close> is not in the cache and the embedding provider returns a
  vector \<open>v\<close> for it, one provider call is made and \<open>v\<close> is stored under \<open>q\<close>; a second
  lookup of \<open>q\<close> in the resulting state returns the same \<open>v\<close> and leaves the state as it
  is, so no second provider call is made, whatever the provider would answer. This holds
  for the cache-first step of main.py and for \<open>get_embedding\<close> of app.py. An entry of
  the cache survives every request to either handler, and a request whose question is
  cached makes no call to the embedding provider.
\<close>

theorem cache_hit:
  "(embedding_cache s q = None \<and>
    fst (gemini_embed_texts env [q] s) = Inr (Some (v # rest)) \<and> v \<noteq> JNull \<longrightarrow>
      fst (get_or_compute_embedding env q s) = Inr (Some v) \<and>
      filter is_embed_call (calls (snd (get_or_compute_embedding env q s))) =
        filter is_embed_call (calls s) @ [Embed_post [q]] \<and>
      embedding_cache (snd (get_or_compute_embedding env q s)) q = Some v \<and>
      get_or_compute_embedding env' q (snd (get_or_compute_embedding env q s)) =
        (Inr (Some v), snd (get_or_compute_embedding env q s))) \<and>
   (embedding_cache s q = None \<and> co_embed aenv q = Co_embeddings (v # rest) \<longrightarrow>
      filter is_embed_call (calls (snd (get_embedding aenv q s))) =
        filter is_embed_call (calls s) @ [Co_embed q] \<and>
      embedding_cache (snd (get_embedding aenv q s)) q = Some v \<and>
      get_embedding aenv' q (snd (get_embedding aenv q s)) = (v, snd (get_embedding aenv q s))) \<and>
   (embedding_cache s t = Some v \<longrightarrow>
      embedding_cache (snd (query_route lib env req s)) t = Some v \<and>
      embedding_cache (snd (query_chatbot lib aenv req s)) t = Some v) \<and>
   (embedding_cache s (strip (question req)) = Some v \<longrightarrow>
      filter is_embed_call (calls (snd (query_route lib env req s))) = filter is_embed_call (calls s) \<and>
      filter is_embed_call (calls (snd (query_chatbot lib aenv req s))) = filter is_embed_call (calls s))"
proof (intro conjI impI)
  assume a: "embedding_cache s q = None \<and>
    fst (gemini_embed_texts env [q] s) = Inr (Some (v # rest)) \<and> v \<noteq> JNull"
  let ?s1 = "snd (get_or_compute_embedding env q s)"
  have g: "get_or_compute_embedding env q s =
           (Inr (Some v),
            save_cache (cache_write env)
              (s\<lparr>calls := calls s @ [Embed_post [q]], embedding_cache := (embedding_cache s)(q \<mapsto> v)\<rparr>))"
    using a by (intro get_or_compute_embedding_success) simp_all
  show "fst (get_or_compute_embedding env q s) = Inr (Some v)" by (simp add: g)
  show "filter is_embed_call (calls ?s1) = filter is_embed_call (calls s) @ [Embed_post [q]]"
    by (simp add: g save_cache_def split: write_outcome.split)
  show c: "embedding_cache ?s1 q = Some v"
    by (simp add: g save_cache_def split: write_outcome.split)
  show "get_or_compute_embedding env' q ?s1 = (Inr (Some v), ?s1)"
    using c by (rule get_or_compute_embedding_hit)
next
  assume a: "embedding_cache s q = None \<and> co_embed aenv q = Co_embeddings (v # rest)"
  let ?s1 = "snd (get_embedding aenv q s)"
  show "filter is_embed_call (calls ?s1) = filter is_embed_call (calls s) @ [Co_embed q]"
    using a by (simp add: get_embedding_def Let_def split: write_outcome.split)
  show c: "embedding_cache ?s1 q = Some v"
    using a by (simp add: get_embedding_def Let_def split: write_outcome.split)
  show "get_embedding aenv' q ?s1 = (v, ?s1)"
    using c by (rule get_embedding_hit)
next
  assume a: "embedding_cache s t = Some v"
  show "embedding_cache (snd (query_route lib env req s)) t = Some v"
    using a by (simp add: query_route_cache get_or_compute_embedding_keeps)
  show "embedding_cache (snd (query_chatbot lib aenv req s)) t = Some v"
    using a by (simp add: query_chatbot_cache get_embedding_keeps)
next
  assume a: "embedding_cache s (strip (question req)) = Some v"
  show "filter is_embed_call (calls (snd (query_route lib env req s))) = filter is_embed_call (calls s)"
    using a by (simp add: query_route_embed_calls get_or_compute_embedding_hit)
  show "filter is_embed_call (calls (snd (query_chatbot lib aenv req s))) = filter is_embed_call (calls s)"
    using a by (simp add: query_chatbot_embed_calls get_embedding_hit)
qed


theorem cache_hit_witness:
  "embedding_cache state0 sample_q = None \<and>
   fst (gemini_embed_texts hits_env [sample_q] state0) = Inr (Some [sample_vec]) \<and>
   sample_vec \<noteq> JNull \<and>
   fst (get_or_compute_embedding hits_env sample_q state0) = Inr (Some sample_vec) \<and>
   embedding_cache (snd (get_or_compute_embedding hits_env sample_q state0)) sample_q = Some sample_vec \<and>
   get_or_compute_embedding (sample_main_env rate_limited None rate_limited) sample_q
       (snd (get_or_compute_embedding hits_env sample_q state0)) =
     (Inr (Some sample_vec), snd (get_or_compute_embedding hits_env sample_q state0)) \<and>
   co_embed hits_app_env sample_q = Co_embeddings [sample_vec] \<and>
   embedding_cache (snd (get_embedding hits_app_env sample_q state0)) sample_q = Some sample_vec \<and>
   get_embedding (sample_app_env Co_embed_rate_limited None Co_chat_error) sample_q
       (snd (get_embedding hits_app_env sample_q state0)) =
     (sample_vec, snd (get_embedding hits_app_env sample_q state0)) \<and>
   embedding_cache (state0\<lparr>embedding_cache := [sample_q \<mapsto> sample_vec]\<rparr>)
       (strip (question plain_request)) = Some sample_vec \<and>
   embedding_cache
       (snd (query_route sample_lib hits_env plain_request
               (state0\<lparr>embedding_cache := [sample_q \<mapsto> sample_vec]\<rparr>)))
       (strip (question plain_request)) = Some sample_vec \<and>
   filter is_embed_call
       (calls (snd (query_route sample_lib hits_env plain_request
                      (state0\<lparr>embedding_cache := [sample_q \<mapsto> sample_vec]\<rparr>)))) =
     filter is_embed_call (calls (state0\<lparr>embedding_cache := [sample_q \<mapsto> sample_vec]\<rparr>)) \<and>
   filter is_embed_call
       (calls (snd (query_chatbot sample_lib hits_app_env plain_request
                      (state0\<lparr>embedding_cache := [sample_q \<mapsto> sample_vec]\<rparr>)))) =
     filter is_embed_call (calls (state0\<lparr>embedding_cache := [sample_q \<mapsto> sample_vec]\<rparr>))"
proof -
  let ?s = "state0\<lparr>embedding_cache := [sample_q \<mapsto> sample_vec]\<rparr>"
  note A = cache_hit [where s = state0 and q = sample_q and env = hits_env and v = sample_vec
      and rest = "[]" and env' = "sample_main_env rate_limited None rate_limited"
      and aenv = hits_app_env and aenv' = "sample_app_env Co_embed_rate_limited None Co_chat_error"]
  note B = cache_hit [where s = ?s and req = plain_request and t = "strip (question plain_request)"
      and v = sample_vec and lib = sample_lib and env = hits_env and aenv = hits_app_env]
  have h1: "embedding_cache state0 sample_q = None" by (simp add: state0_def)
  have h2: "co_embed hits_app_env sample_q = Co_embeddings [sample_vec]"
    by (simp add: hits_app_env_def sample_app_env_def)
  have h3: "embedding_cache ?s (strip (question plain_request)) = Some sample_vec"
    by (simp add: question_plain)
  from A B h1 h2 h3 hits_embed [of sample_q state0] sample_vec_not_null show ?thesis by blast
qed

section \<open>Vector search results\<close>

text \<open>
  Claim C7, as amended. Neither search helper fails on a result whose payload lacks
  fields (or is \<open>None\<close>): each returns one chunk per result. A missing \<open>text\<close>
  becomes the empty string in both variants. A missing \<open>chapter\<close> becomes "Unknown"
  and a missing \<open>chunk_index\<close> becomes 0 in app.py; in main.py both become \<open>None\<close>.
\<close>

theorem missing_payload_fields:
  "(qdrant_search env emb k = Some results \<longrightarrow>
      fst (search_qdrant_by_embedding env emb k s) = map main_chunk results) \<and>
   (truthy (fst (get_embedding aenv q s)) \<and>
    app_qdrant_search aenv (fst (get_embedding aenv q s)) k = Some results \<longrightarrow>
      fst (search_qdrant aenv q k s) = map app_chunk results) \<and>
   (payload_field r (py ''text'') = None \<longrightarrow>
      c_text (main_chunk r) = JStr [] \<and> c_text (app_chunk r) = JStr []) \<and>
   (payload_field r (py ''chapter'') = None \<longrightarrow>
      c_chapter (main_chunk r) = JNull \<and> c_chapter (app_chunk r) = JStr (py ''Unknown'')) \<and>
   (payload_field r (py ''chunk_index'') = None \<longrightarrow>
      c_chunk_index (main_chunk r) = JNull \<and> c_chunk_index (app_chunk r) = JInt 0)"
proof (intro conjI impI)
  assume "qdrant_search env emb k = Some results"
  then show "fst (search_qdrant_by_embedding env emb k s) = map main_chunk results"
    by (simp add: search_qdrant_by_embedding_def)
next
  assume a: "truthy (fst (get_embedding aenv q s)) \<and>
    app_qdrant_search aenv (fst (get_embedding aenv q s)) k = Some results"
  obtain e s1 where g: "get_embedding aenv q s = (e, s1)"
    by (cases "get_embedding aenv q s")
  with a show "fst (search_qdrant aenv q k s) = map app_chunk results"
    by (simp add: search_qdrant_def)
qed (simp_all add: payload_field_def main_chunk_def app_chunk_def dict_get_def
       dict_get_default_def split: option.splits)

theorem missing_payload_fields_witness:
  "qdrant_search (sample_main_env embed_ok (Some sample_points) chat_ok) sample_vec 5 = Some sample_points \<and>
   fst (search_qdrant_by_embedding (sample_main_env embed_ok (Some sample_points) chat_ok) sample_vec 5 state0) =
     map main_chunk sample_points \<and>
   truthy (fst (get_embedding (sample_app_env (Co_embeddings [sample_vec]) (Some sample_points) Co_chat_error)
                  (py ''What is ROS 2?'') state0)) \<and>
   fst (search_qdrant (sample_app_env (Co_embeddings [sample_vec]) (Some sample_points) Co_chat_error)
          (py ''What is ROS 2?'') 5 state0) = map app_chunk sample_points \<and>
   payload_field (sample_points ! 1) (py ''text'') = None \<and>
   payload_field (sample_points ! 1) (py ''chapter'') = None \<and>
   payload_field (sample_points ! 1) (py ''chunk_index'') = None \<and>
   app_chunk (sample_points ! 1) =
     \<lparr>c_text = JStr [], c_chapter = JStr (py ''Unknown''), c_chunk_index = JInt 0, c_score = JFloat (4/5)\<rparr> \<and>
   main_chunk (sample_points ! 1) =
     \<lparr>c_text = JStr [], c_chapter = JNull, c_chunk_index = JNull, c_score = JFloat (4/5)\<rparr>"
proof -
  let ?env = "sample_main_env embed_ok (Some sample_points) chat_ok"
  let ?aenv = "sample_app_env (Co_embeddings [sample_vec]) (Some sample_points) Co_chat_error"
  let ?r = "sample_points ! 1"
  note T = missing_payload_fields [where env = ?env and emb = sample_vec and k = 5
      and results = sample_points and aenv = ?aenv and q = "py ''What is ROS 2?''" and s = state0 and r = ?r]
  have h1: "qdrant_search ?env sample_vec 5 = Some sample_points"
    by (simp add: sample_main_env_def)
  have h2: "truthy (fst (get_embedding ?aenv (py ''What is ROS 2?'') state0))"
    by (simp add: get_embedding_def sample_defs)
  have h3: "app_qdrant_search ?aenv (fst (get_embedding ?aenv (py ''What is ROS 2?'') state0)) 5 = Some sample_points"
    by (simp add: sample_app_env_def)
  have h4: "payload_field ?r (py ''text'') = None" "payload_field ?r (py ''chapter'') = None"
    "payload_field ?r (py ''chunk_index'') = None"
    by (simp_all add: payload_field_def sample_points_def)
  have sc: "c_score (app_chunk ?r) = JFloat (4/5)" "c_score (main_chunk ?r) = JFloat (4/5)"
    by (simp_all add: app_chunk_def main_chunk_def sample_points_def)
  have a: "app_chunk ?r = \<lparr>c_text = JStr [], c_chapter = JStr (py ''Unknown''), c_chunk_index = JInt 0, c_score = JFloat (4/5)\<rparr>"
    using T h4 sc by (cases "app_chunk ?r") simp
  have m: "main_chunk ?r = \<lparr>c_text = JStr [], c_chapter = JNull, c_chunk_index = JNull, c_score = JFloat (4/5)\<rparr>"
    using T h4 sc by (cases "main_chunk ?r") simp
  from T h1 h2 h3 h4 a m show ?thesis by blast
qed

theorem missing_chapter_counterexample:
  "fst (search_qdrant
          (sample_app_env (Co_embeddings [sample_vec]) (Some [\<lparr>payload = None, score = JFloat (4/5)\<rparr>]) Co_chat_error)
          (py ''What is ROS 2?'') 5 state0) =
     [\<lparr>c_text = JStr [], c_chapter = JStr (py ''Unknown''), c_chunk_index = JInt 0, c_score = JFloat (4/5)\<rparr>] \<and>
   fst (search_qdrant_by_embedding
          (sample_main_env embed_ok (Some [\<lparr>payload = None, score = JFloat (4/5)\<rparr>]) chat_ok)
          sample_vec 5 state0) =
     [\<lparr>c_text = JStr [], c_chapter = JNull, c_chunk_index = JNull, c_score = JFloat (4/5)\<rparr>]"
  by (simp add: search_qdrant_def get_embedding_def app_chunk_def search_qdrant_by_embedding_def
        main_chunk_def dict_get_def dict_get_default_def sample_defs)

section \<open>Word chunking\<close>

text \<open>
  Claim C8, as amended. \<open>chunk_text\<close> is total (the loop ends after as many passes as
  there are chunks, one per 180 words, rounded up). Read back as words, chunk \<open>k\<close> is
  the slice of at most 220 words that starts at word \<open>180 * k\<close>; the words of a chunk
  after its first 180 are the first words of the next chunk, and they are exactly 40
  whenever that next chunk has at least 40 words (a shorter last chunk lies wholly
  inside its predecessor); and word \<open>i\<close> of the document is word \<open>i mod 180\<close> of
  chunk \<open>i div 180\<close>.
\<close>

theorem chunk_text_chunks:
  "length (chunk_text txt) = (length (py_split txt) + 179) div 180 \<and>
   (\<forall>k < length (chunk_text txt).
      py_split (chunk_text txt ! k) = take 220 (drop (180 * k) (py_split txt)) \<and>
      length (py_split (chunk_text txt ! k)) \<le> 220 \<and>
      (Suc k < length (chunk_text txt) \<longrightarrow>
         drop 180 (py_split (chunk_text txt ! k)) = take 40 (py_split (chunk_text txt ! Suc k)) \<and>
         (40 \<le> length (py_split (chunk_text txt ! Suc k)) \<longrightarrow>
            length (drop 180 (py_split (chunk_text txt ! k))) = 40))) \<and>
   (\<forall>i < length (py_split txt).
      i div 180 < length (chunk_text txt) \<and>
      py_split (chunk_text txt ! (i div 180)) ! (i mod 180) = py_split txt ! i)"
proof (intro conjI allI impI)
  show "length (chunk_text txt) = (length (py_split txt) + 179) div 180"
    by (rule chunk_text_length)
next
  fix k assume "k < length (chunk_text txt)"
  then show "py_split (chunk_text txt ! k) = take 220 (drop (180 * k) (py_split txt))"
    by (rule chunk_text_nth)
next
  fix k assume "k < length (chunk_text txt)"
  then have "py_split (chunk_text txt ! k) = take 220 (drop (180 * k) (py_split txt))"
    by (rule chunk_text_nth)
  then show "length (py_split (chunk_text txt ! k)) \<le> 220" by simp
next
  fix k assume k: "k < length (chunk_text txt)" and sk: "Suc k < length (chunk_text txt)"
  show "drop 180 (py_split (chunk_text txt ! k)) = take 40 (py_split (chunk_text txt ! Suc k))"
    by (simp only: chunk_text_nth [OF k] chunk_text_nth [OF sk] slice_overlap)
next
  fix k assume k: "k < length (chunk_text txt)" and sk: "Suc k < length (chunk_text txt)"
    and l: "40 \<le> length (py_split (chunk_text txt ! Suc k))"
  have "drop 180 (py_split (chunk_text txt ! k)) = take 40 (py_split (chunk_text txt ! Suc k))"
    by (simp only: chunk_text_nth [OF k] chunk_text_nth [OF sk] slice_overlap)
  then show "length (drop 180 (py_split (chunk_text txt ! k))) = 40"
    using l by (simp only: length_take min_absorb2)
next
  fix i assume "i < length (py_split txt)"
  then show "i div 180 < length (chunk_text txt)"
    by (simp only: chunk_text_length chunk_index_bound)
next
  fix i assume i: "i < length (py_split txt)"
  then have "i div 180 < length (chunk_text txt)"
    by (simp only: chunk_text_length chunk_index_bound)
  then show "py_split (chunk_text txt ! (i div 180)) ! (i mod 180) = py_split txt ! i"
    by (simp only: chunk_text_nth slice_nth [OF i])
qed


lemma sample_text_words: "py_split (sample_text n) = replicate n (py ''w'')"
  unfolding sample_text_def
  by (rule py_split_join) (simp add: list_all_length wordlike_def py_isspace_def py_def)

text \<open>
  A document whose words are separated by a no-break space (U+00A0), and by an
  ideographic space (U+3000) followed by a line feed.
\<close>

lemma chunk_text_unicode_spaces:
  "py_split (py ''a'' @ [0xA0] @ py ''b'' @ [0x3000, 0x0A] @ py ''c'') = [py ''a'', py ''b'', py ''c''] \<and>
   chunk_text (py ''a'' @ [0xA0] @ py ''b'' @ [0x3000, 0x0A] @ py ''c'') = [py ''a b c'']"
proof -
  have s: "py_split (py ''a'' @ [0xA0] @ py ''b'' @ [0x3000, 0x0A] @ py ''c'') = [py ''a'', py ''b'', py ''c'']"
    by (simp add: py_split_def py_isspace_def py_def)
  have "chunk_loop [py ''a'', py ''b'', py ''c''] 0 [] = [py ''a b c'']"
    by (subst chunk_loop.simps, subst chunk_loop.simps)
       (simp add: CHUNK_SIZE_def CHUNK_OVERLAP_def py_def)
  then show ?thesis by (simp only: chunk_text_def s)
qed

theorem chunk_text_chunks_witness:
  "length (chunk_text (sample_text 230)) = 2 \<and>
   0 < length (chunk_text (sample_text 230)) \<and>
   Suc 0 < length (chunk_text (sample_text 230)) \<and>
   py_split (chunk_text (sample_text 230) ! 0) = take 220 (drop (180 * 0) (py_split (sample_text 230))) \<and>
   length (py_split (chunk_text (sample_text 230) ! 0)) \<le> 220 \<and>
   drop 180 (py_split (chunk_text (sample_text 230) ! 0)) =
     take 40 (py_split (chunk_text (sample_text 230) ! Suc 0)) \<and>
   40 \<le> length (py_split (chunk_text (sample_text 230) ! Suc 0)) \<and>
   length (drop 180 (py_split (chunk_text (sample_text 230) ! 0))) = 40 \<and>
   200 < length (py_split (sample_text 230)) \<and>
   py_split (chunk_text (sample_text 230) ! (200 div 180)) ! (200 mod 180) =
     py_split (sample_text 230) ! 200"
proof -
  note T = chunk_text_chunks [of "sample_text 230"]
  have len: "length (chunk_text (sample_text 230)) = 2"
    using T by (simp add: sample_text_words)
  have k0: "0 < length (chunk_text (sample_text 230))"
    and k1: "Suc 0 < length (chunk_text (sample_text 230))"
    by (simp_all add: len)
  have c1: "py_split (chunk_text (sample_text 230) ! Suc 0) = replicate 50 (py ''w'')"
    using T k1 by (simp add: sample_text_words)
  have l1: "40 \<le> length (py_split (chunk_text (sample_text 230) ! Suc 0))"
    by (simp add: c1)
  have i: "200 < length (py_split (sample_text 230))"
    by (simp add: sample_text_words)
  from T k0 k1 l1 i len show ?thesis by blast
qed

theorem chunk_overlap_counterexample:
  "length (chunk_text (sample_text 200)) = 2 \<and>
   length (py_split (chunk_text (sample_text 200) ! 0)) = 200 \<and>
   length (py_split (chunk_text (sample_text 200) ! 1)) = 20 \<and>
   py_split (chunk_text (sample_text 200) ! 1) = drop 180 (py_split (chunk_text (sample_text 200) ! 0))"
proof -
  have len: "length (chunk_text (sample_text 200)) = 2"
    by (simp add: chunk_text_length sample_text_words)
  have c0: "py_split (chunk_text (sample_text 200) ! 0) = replicate 200 (py ''w'')"
    by (simp add: chunk_text_nth len sample_text_words)
  have c1: "py_split (chunk_text (sample_text 200) ! 1) = replicate 20 (py ''w'')"
    by (simp add: chunk_text_nth len sample_text_words)
  show ?thesis unfolding len c0 c1 by simp
qed

section \<open>A failing embedding provider\<close>

text \<open>
  Claim C5, as amended. Let the question be valid and not cached. In main.py, whenever
  \<open>gemini_embed_texts\<close> reports a failure (it returns \<open>None\<close>, an empty list, or a list
  whose first embedding is \<open>None\<close>), and in particular when the call to the embedding
  endpoint raises, or answers with a status other than 200 (a rate limit included), or
  answers 200 with an object of none of the known shapes, the response is sent with
  status 200, its answer is the fixed message "Embedding failed or service unavailable.
  Please try again later.", its source list is empty and its meta is
  \<open>{"rate_limited": True}\<close>; nothing but the one embedding call is made. In app.py,
  when \<open>co.embed\<close> raises or returns no embedding, the response is sent with status 200 and its source list is
  empty (the response model of app.py has no metadata field); when no non-blank
  selected text came with the request its answer is the fixed message of
  \<open>generate_answer\<close> and nothing but the one embedding call is made; otherwise the chat
  model is called with the selected text as the only passage, and the answer is the
  trimmed reply of the chat model, or one of the two fixed messages of
  \<open>generate_answer\<close> when that call raises.
\<close>

theorem embedding_failure_response:
  "(strip (question req) \<noteq> [] \<and> embedding_cache s (strip (question req)) = None \<and>
    (embed_call_fails (embed_post env [strip (question req)]) \<or>
     embed_post env [strip (question req)] = Response 200 (Some (JObj kv)) \<and> unknown_embed_shape kv) \<longrightarrow>
      query_route lib env req s =
        (Inr \<lparr>answer = py ''Embedding failed or service unavailable. Please try again later.'',
              sources = [], meta = [(py ''rate_limited'', JBool True)]\<rparr>,
         s\<lparr>calls := calls s @ [Embed_post [strip (question req)]]\<rparr>) \<and>
      status_code (fst (query_route lib env req s)) = 200) \<and>
   (strip (question req) \<noteq> [] \<and> embedding_cache s (strip (question req)) = None \<and>
    fst (gemini_embed_texts env [strip (question req)] s) = Inr r \<and> \<not> embed_succeeded (Inr r) \<longrightarrow>
      query_route lib env req s =
        (Inr \<lparr>answer = py ''Embedding failed or service unavailable. Please try again later.'',
              sources = [], meta = [(py ''rate_limited'', JBool True)]\<rparr>,
         s\<lparr>calls := calls s @ [Embed_post [strip (question req)]]\<rparr>) \<and>
      status_code (fst (query_route lib env req s)) = 200) \<and>
   (strip (question req) \<noteq> [] \<and> embedding_cache s (strip (question req)) = None \<and>
    (co_embed aenv (strip (question req)) = Co_embed_rate_limited \<or>
     co_embed aenv (strip (question req)) = Co_embed_error \<or>
     co_embed aenv (strip (question req)) = Co_embeddings []) \<longrightarrow>
      status_code (fst (query_chatbot lib aenv req s)) = 200 \<and>
      app_sources (projr (fst (query_chatbot lib aenv req s))) = [] \<and>
      (selected_passage req = None \<longrightarrow>
         query_chatbot lib aenv req s =
           (Inr \<lparr>app_answer = py ''I'' @ [0x27] @ py ''m so'' @ py ''rry, I couldn'' @ [0x27] @
                    py ''t find relevant information or the API rate limit was reached.'', app_sources = []\<rparr>,
            s\<lparr>calls := calls s @ [Co_embed (strip (question req))]\<rparr>)) \<and>
      (selected_passage req = Some t \<longrightarrow>
         query_chatbot lib aenv req s =
           (Inr \<lparr>app_answer =
                   (case co_chat aenv (chat_prompt lib [JStr t] (strip (question req))) of
                           Co_text reply \<Rightarrow> strip reply
                         | Co_chat_rate_limited \<Rightarrow>
                             py ''API rate limit reached. Please try again in a few seconds.''
                         | Co_chat_error \<Rightarrow>
                             py ''Sorry, there was an issue generating the answer. Please try again.''),
                 app_sources = []\<rparr>,
            s\<lparr>calls := calls s @ [Co_embed (strip (question req)),
                                  Co_chat (chat_prompt lib [JStr t] (strip (question req)))]\<rparr>) \<and>
         suffix (py ''Context from the textbook: Passage 1:'' @ [nl] @ t @ [nl] @
                 py ''Question: '' @ strip (question req) @ [nl] @ py ''Answer:'' @ [nl])
           (chat_prompt lib [JStr t] (strip (question req)))))"
proof (intro conjI impI)
  assume a: "strip (question req) \<noteq> [] \<and> embedding_cache s (strip (question req)) = None \<and>
    (embed_call_fails (embed_post env [strip (question req)]) \<or>
     embed_post env [strip (question req)] = Response 200 (Some (JObj kv)) \<and> unknown_embed_shape kv)"
  let ?q = "strip (question req)"
  have g: "gemini_embed_texts env [?q] s = (Inr None, s\<lparr>calls := calls s @ [Embed_post [?q]]\<rparr>)"
    using a embed_call_fails_result [of env "[?q]" s] unknown_embed_shape_result [of env "[?q]" kv s]
    by blast
  have r: "query_route lib env req s =
           (Inr embed_failed_response, s\<lparr>calls := calls s @ [Embed_post [?q]]\<rparr>)"
    using a g by (intro query_route_embed_failed) simp_all
  show "query_route lib env req s =
        (Inr \<lparr>answer = py ''Embedding failed or service unavailable. Please try again later.'',
              sources = [], meta = [(py ''rate_limited'', JBool True)]\<rparr>,
         s\<lparr>calls := calls s @ [Embed_post [?q]]\<rparr>)"
    by (simp add: r embed_failed_response_def)
  show "status_code (fst (query_route lib env req s)) = 200" by (simp add: r)
next
  assume a: "strip (question req) \<noteq> [] \<and> embedding_cache s (strip (question req)) = None \<and>
    fst (gemini_embed_texts env [strip (question req)] s) = Inr r \<and> \<not> embed_succeeded (Inr r)"
  let ?q = "strip (question req)"
  have n: "\<not> embed_succeeded (fst (gemini_embed_texts env [?q] s))" using a by simp
  have g: "get_or_compute_embedding env ?q s = (Inr None, s\<lparr>calls := calls s @ [Embed_post [?q]]\<rparr>)"
    using a get_or_compute_embedding_failure [of s ?q env, OF _ n]
    by (cases "get_or_compute_embedding env ?q s") simp
  have r: "query_route lib env req s =
           (Inr embed_failed_response, s\<lparr>calls := calls s @ [Embed_post [?q]]\<rparr>)"
    using a by (simp add: query_route_def g)
  show "query_route lib env req s =
        (Inr \<lparr>answer = py ''Embedding failed or service unavailable. Please try again later.'',
              sources = [], meta = [(py ''rate_limited'', JBool True)]\<rparr>,
         s\<lparr>calls := calls s @ [Embed_post [?q]]\<rparr>)"
    by (simp add: r embed_failed_response_def)
  show "status_code (fst (query_route lib env req s)) = 200" by (simp add: r)
next
  assume a: "strip (question req) \<noteq> [] \<and> embedding_cache s (strip (question req)) = None \<and>
    (co_embed aenv (strip (question req)) = Co_embed_rate_limited \<or>
     co_embed aenv (strip (question req)) = Co_embed_error \<or>
     co_embed aenv (strip (question req)) = Co_embeddings [])"
  let ?q = "strip (question req)"
  have sq: "search_qdrant aenv ?q 5 s = ([], s\<lparr>calls := calls s @ [Co_embed ?q]\<rparr>)"
    using a by (intro search_qdrant_failed) auto
  have v: "query_chatbot lib aenv req s =
      (Inr \<lparr>app_answer = fst (generate_answer lib aenv (build_contexts req []) ?q
                                  (s\<lparr>calls := calls s @ [Co_embed ?q]\<rparr>)),
            app_sources = []\<rparr>,
       snd (generate_answer lib aenv (build_contexts req []) ?q (s\<lparr>calls := calls s @ [Co_embed ?q]\<rparr>)))"
    using a query_chatbot_valid [of req ?q lib aenv s] by (simp add: sq)
  show "status_code (fst (query_chatbot lib aenv req s)) = 200" by (simp add: v)
  show "app_sources (projr (fst (query_chatbot lib aenv req s))) = []" by (simp add: v)
  show "query_chatbot lib aenv req s =
           (Inr \<lparr>app_answer = py ''I'' @ [0x27] @ py ''m so'' @ py ''rry, I couldn'' @ [0x27] @
                    py ''t find relevant information or the API rate limit was reached.'', app_sources = []\<rparr>,
            s\<lparr>calls := calls s @ [Co_embed ?q]\<rparr>)" if "selected_passage req = None"
    using that by (simp add: v build_contexts_def generate_answer_empty no_context_answer_def)
  show "query_chatbot lib aenv req s =
           (Inr \<lparr>app_answer =
                   (case co_chat aenv (chat_prompt lib [JStr t] (strip (question req))) of
                           Co_text reply \<Rightarrow> strip reply
                         | Co_chat_rate_limited \<Rightarrow>
                             py ''API rate limit reached. Please try again in a few seconds.''
                         | Co_chat_error \<Rightarrow>
                             py ''Sorry, there was an issue generating the answer. Please try again.''),
                 app_sources = []\<rparr>,
            s\<lparr>calls := calls s @ [Co_embed (strip (question req)),
                                  Co_chat (chat_prompt lib [JStr t] (strip (question req)))]\<rparr>)"
    if "selected_passage req = Some t"
    using that
    by (simp add: v build_contexts_def generate_answer_def Let_def split: co_chat_result.split)
  show "suffix (py ''Context from the textbook: Passage 1:'' @ [nl] @ t @ [nl] @
                 py ''Question: '' @ strip (question req) @ [nl] @ py ''Answer:'' @ [nl])
           (chat_prompt lib [JStr t] (strip (question req)))"
    using chat_prompt_selection [where t = t and cs = "[]" and lib = lib and q = ?q] by simp
qed


theorem embedding_failure_response_witness:
  "strip (question plain_request) \<noteq> [] \<and>
   embedding_cache state0 (strip (question plain_request)) = None \<and>
   embed_call_fails (embed_post limited_env [strip (question plain_request)]) \<and>
   query_route sample_lib limited_env plain_request state0 =
     (Inr \<lparr>answer = py ''Embedding failed or service unavailable. Please try again later.'',
           sources = [], meta = [(py ''rate_limited'', JBool True)]\<rparr>,
      state0\<lparr>calls := calls state0 @ [Embed_post [strip (question plain_request)]]\<rparr>) \<and>
   status_code (fst (query_route sample_lib limited_env plain_request state0)) = 200 \<and>
   embed_post (sample_main_env chat_odd None chat_ok) [strip (question plain_request)] =
     Response 200 (Some (JObj [(py ''error'', JStr (py ''quota exceeded''))])) \<and>
   unknown_embed_shape [(py ''error'', JStr (py ''quota exceeded''))] \<and>
   status_code (fst (query_route sample_lib (sample_main_env chat_odd None chat_ok) plain_request state0)) = 200 \<and>
   fst (gemini_embed_texts
          (sample_main_env (Response 200 (Some (JObj [(py ''embeddings'', JArr [])]))) None chat_ok)
          [strip (question plain_request)] state0) = Inr (Some []) \<and>
   \<not> embed_succeeded (Inr (Some [])) \<and>
   fst (query_route sample_lib
          (sample_main_env (Response 200 (Some (JObj [(py ''embeddings'', JArr [])]))) None chat_ok)
          plain_request state0) =
     Inr \<lparr>answer = py ''Embedding failed or service unavailable. Please try again later.'',
          sources = [], meta = [(py ''rate_limited'', JBool True)]\<rparr> \<and>
   co_embed limited_app_env (strip (question plain_request)) = Co_embed_rate_limited \<and>
   selected_passage plain_request = None \<and>
   query_chatbot sample_lib limited_app_env plain_request state0 =
     (Inr \<lparr>app_answer = py ''I'' @ [0x27] @ py ''m so'' @ py ''rry, I couldn'' @ [0x27] @
                    py ''t find relevant information or the API rate limit was reached.'', app_sources = []\<rparr>,
      state0\<lparr>calls := calls state0 @ [Co_embed (strip (question plain_request))]\<rparr>) \<and>
   status_code (fst (query_chatbot sample_lib limited_app_env plain_request state0)) = 200 \<and>
   strip (question selection_request) \<noteq> [] \<and>
   selected_passage selection_request = Some (py ''ROS 2 nodes'') \<and>
   app_sources (projr (fst (query_chatbot sample_lib limited_app_env selection_request state0))) = [] \<and>
   query_chatbot sample_lib limited_app_env selection_request state0 =
     (Inr \<lparr>app_answer = py ''From the selection.'', app_sources = []\<rparr>,
      state0\<lparr>calls := calls state0 @
        [Co_embed (strip (question selection_request)),
         Co_chat (chat_prompt sample_lib [JStr (py ''ROS 2 nodes'')] (strip (question selection_request)))]\<rparr>) \<and>
   suffix (py ''Context from the textbook: Passage 1:'' @ [nl] @ py ''ROS 2 nodes'' @ [nl] @
           py ''Question: '' @ strip (question selection_request) @ [nl] @ py ''Answer:'' @ [nl])
     (chat_prompt sample_lib [JStr (py ''ROS 2 nodes'')] (strip (question selection_request)))"
proof -
  note A = embedding_failure_response [where req = plain_request and s = state0 and env = limited_env
      and lib = sample_lib and aenv = limited_app_env]
  note B = embedding_failure_response [where req = plain_request and s = state0
      and env = "sample_main_env chat_odd None chat_ok" and lib = sample_lib
      and kv = "[(py ''error'', JStr (py ''quota exceeded''))]"]
  note C = embedding_failure_response [where req = selection_request and s = state0
      and lib = sample_lib and aenv = limited_app_env and t = "py ''ROS 2 nodes''"]
  have q: "strip (question plain_request) \<noteq> []" "strip (question selection_request) \<noteq> []"
    by (simp_all add: question_plain question_selection sample_q_nonempty)
  have o: "embed_post (sample_main_env chat_odd None chat_ok) [strip (question plain_request)] =
     Response 200 (Some (JObj [(py ''error'', JStr (py ''quota exceeded''))]))"
    by (simp add: sample_main_env_def chat_odd_def)
  have u: "unknown_embed_shape [(py ''error'', JStr (py ''quota exceeded''))]"
    by (simp add: unknown_embed_shape_def)
  have hA: "strip (question plain_request) \<noteq> [] \<and>
      embedding_cache state0 (strip (question plain_request)) = None \<and>
      (embed_call_fails (embed_post limited_env [strip (question plain_request)]) \<or>
       embed_post limited_env [strip (question plain_request)] = Response 200 (Some (JObj kv)) \<and>
       unknown_embed_shape kv)" for kv
    by (simp add: q state0_miss limited_fails)
  have hB: "strip (question plain_request) \<noteq> [] \<and>
      embedding_cache state0 (strip (question plain_request)) = None \<and>
      (embed_call_fails (embed_post (sample_main_env chat_odd None chat_ok) [strip (question plain_request)]) \<or>
       embed_post (sample_main_env chat_odd None chat_ok) [strip (question plain_request)] =
         Response 200 (Some (JObj [(py ''error'', JStr (py ''quota exceeded''))])) \<and>
       unknown_embed_shape [(py ''error'', JStr (py ''quota exceeded''))])"
    using q o u by (simp add: state0_miss)
  have hC: "strip (question r) \<noteq> [] \<Longrightarrow> strip (question r) \<noteq> [] \<and>
      embedding_cache state0 (strip (question r)) = None \<and>
      (co_embed limited_app_env (strip (question r)) = Co_embed_rate_limited \<or>
       co_embed limited_app_env (strip (question r)) = Co_embed_error \<or>
       co_embed limited_app_env (strip (question r)) = Co_embeddings [])" for r
    by (simp add: state0_miss limited_app_embed)
  note a1 = A [THEN conjunct1, rule_format, OF hA]
  note b1 = B [THEN conjunct1, rule_format, OF hB]
  note a2 = A [THEN conjunct2, THEN conjunct2, rule_format, OF hC [OF q(1)]]
  note a2n = a2 [THEN conjunct2, THEN conjunct2, THEN conjunct1, rule_format, OF selected_passage_plain]
  note c2 = C [THEN conjunct2, THEN conjunct2, rule_format, OF hC [OF q(2)]]
  let ?e = "sample_main_env (Response 200 (Some (JObj [(py ''embeddings'', JArr [])]))) None chat_ok"
  have ge: "fst (gemini_embed_texts ?e [strip (question plain_request)] state0) = Inr (Some [])"
    by (simp add: gemini_embed_texts_def parse_embed_response_def sample_main_env_def)
  have hD: "strip (question plain_request) \<noteq> [] \<and>
      embedding_cache state0 (strip (question plain_request)) = None \<and>
      fst (gemini_embed_texts ?e [strip (question plain_request)] state0) = Inr (Some []) \<and>
      \<not> embed_succeeded (Inr (Some []))"
    using q ge by (simp add: state0_miss)
  note d1 = embedding_failure_response [where req = plain_request and s = state0 and env = ?e
      and lib = sample_lib and r = "Some []", THEN conjunct2, THEN conjunct1, rule_format, OF hD]
  have d2: "fst (query_route sample_lib ?e plain_request state0) =
     Inr \<lparr>answer = py ''Embedding failed or service unavailable. Please try again later.'',
          sources = [], meta = [(py ''rate_limited'', JBool True)]\<rparr>"
    using d1 by simp
  have d3: "\<not> embed_succeeded (Inr (Some []))" by simp
  note c2s = c2 [THEN conjunct2, THEN conjunct2, THEN conjunct2, rule_format, OF selected_passage_selection]
  have cc: "co_chat limited_app_env p = Co_text (py ''From the selection.'')" for p
    by (simp add: limited_app_env_def sample_app_env_def)
  have c2a: "query_chatbot sample_lib limited_app_env selection_request state0 =
     (Inr \<lparr>app_answer = py ''From the selection.'', app_sources = []\<rparr>,
      state0\<lparr>calls := calls state0 @
        [Co_embed (strip (question selection_request)),
         Co_chat (chat_prompt sample_lib [JStr (py ''ROS 2 nodes'')] (strip (question selection_request)))]\<rparr>)"
    using c2s [THEN conjunct1] by (simp add: cc strip_reply)
  note c2b = c2s [THEN conjunct2]
  note c2src = c2 [THEN conjunct2, THEN conjunct1]
  from q o u a1 b1 a2 a2n c2src c2a c2b ge d2 d3 limited_fails [of "[strip (question plain_request)]"]
    state0_miss [of "strip (question plain_request)"]
    limited_app_embed [of "strip (question plain_request)"]
    selected_passage_plain selected_passage_selection
  show ?thesis by blast
qed


theorem degraded_answer_counterexample:
  "strip (question selection_request) = sample_q \<and>
   embedding_cache state0 sample_q = None \<and>
   co_embed limited_app_env sample_q = Co_embed_rate_limited \<and>
   fst (query_chatbot sample_lib limited_app_env selection_request state0) =
     Inr \<lparr>app_answer = py ''From the selection.'', app_sources = []\<rparr> \<and>
   calls (snd (query_chatbot sample_lib limited_app_env selection_request state0)) =
     [Co_embed sample_q, Co_chat (chat_prompt sample_lib [JStr (py ''ROS 2 nodes'')] sample_q)] \<and>
   strip (question plain_request) = sample_q \<and>
   query_route sample_lib (sample_main_env (Response 200 None) None chat_ok) plain_request state0 =
     (Inl (Unhandled JSONDecodeError), state0\<lparr>calls := [Embed_post [sample_q]]\<rparr>) \<and>
   status_code (fst (query_route sample_lib (sample_main_env (Response 200 None) None chat_ok)
                       plain_request state0)) = 500 \<and>
   query_route sample_lib (sample_main_env (Response 200 (Some (JInt 5))) None chat_ok) plain_request state0 =
     (Inl (Unhandled TypeError), state0\<lparr>calls := [Embed_post [sample_q]]\<rparr>) \<and>
   status_code (fst (query_route sample_lib (sample_main_env (Response 200 (Some (JInt 5))) None chat_ok)
                       plain_request state0)) = 500"
proof -
  have m1: "query_route sample_lib (sample_main_env (Response 200 None) None chat_ok) plain_request state0 =
     (Inl (Unhandled JSONDecodeError), state0\<lparr>calls := [Embed_post [sample_q]]\<rparr>)"
    by (simp add: query_route_def question_plain sample_q_nonempty get_or_compute_embedding_def
          state0_miss gemini_embed_texts_def sample_main_env_def calls_state0)
  have m2: "query_route sample_lib (sample_main_env (Response 200 (Some (JInt 5))) None chat_ok)
              plain_request state0 =
     (Inl (Unhandled TypeError), state0\<lparr>calls := [Embed_post [sample_q]]\<rparr>)"
    by (simp add: query_route_def question_plain sample_q_nonempty get_or_compute_embedding_def
          state0_miss gemini_embed_texts_def parse_embed_response_def sample_main_env_def calls_state0)
  have s: "search_qdrant limited_app_env sample_q 5 state0 =
      ([], state0\<lparr>calls := calls state0 @ [Co_embed sample_q]\<rparr>)"
    by (intro search_qdrant_failed) (simp_all add: state0_miss limited_app_embed)
  have c: "co_chat limited_app_env p = Co_text (py ''From the selection.'')" for p
    by (simp add: limited_app_env_def sample_app_env_def)
  have t: "strip (py ''From the selection.'') = py ''From the selection.''"
    by (simp add: strip_defs)
  have b: "build_contexts selection_request [] = [JStr (py ''ROS 2 nodes'')]"
    by (simp add: build_contexts_def selected_passage_selection)
  have r: "query_chatbot sample_lib limited_app_env selection_request state0 =
      (Inr \<lparr>app_answer = py ''From the selection.'', app_sources = []\<rparr>,
       state0\<lparr>calls := calls state0 @
          [Co_embed sample_q, Co_chat (chat_prompt sample_lib [JStr (py ''ROS 2 nodes'')] sample_q)]\<rparr>)"
    using query_chatbot_valid [OF question_selection sample_q_nonempty, of sample_lib limited_app_env state0]
    by (simp add: s b generate_answer_def c t)
  show ?thesis
    by (simp add: r m1 m2 question_selection question_plain state0_miss limited_app_embed calls_state0)
qed


section \<open>Failed embeddings are not cached\<close>

text \<open>
  Claim C10. A call to the embedding endpoint of main.py that raises, answers with a
  status other than 200, answers 200 with a body that is not JSON, or with an object of
  none of the known shapes, is not a success; and whenever the call is not a success,
  the handler leaves the cache dictionary and the cache file as they were. After a
  success the dictionary holds the new entry and, the write succeeding, so does the
  file. The same holds for \<open>get_embedding\<close> and the handler of app.py when \<open>co.embed\<close>
  raises or returns no vector, and for each pass of the retry loop of embeddings.py.
\<close>

theorem failed_embedding_not_cached:
  "(embed_call_fails (embed_post env ts) \<or> embed_post env ts = Response 200 None \<or>
    embed_post env ts = Response 200 (Some (JObj kv)) \<and> unknown_embed_shape kv \<longrightarrow>
      \<not> embed_succeeded (fst (gemini_embed_texts env ts s))) \<and>
   (\<not> embed_succeeded (fst (gemini_embed_texts env [strip (question req)] s)) \<longrightarrow>
      embedding_cache (snd (query_route lib env req s)) = embedding_cache s \<and>
      cache_file (snd (query_route lib env req s)) = cache_file s) \<and>
   (embedding_cache s q = None \<and>
    fst (gemini_embed_texts env [q] s) = Inr (Some (v # rest)) \<and> v \<noteq> JNull \<longrightarrow>
      embedding_cache (snd (get_or_compute_embedding env q s)) = (embedding_cache s)(q \<mapsto> v) \<and>
      (cache_write env = Written \<longrightarrow>
         cache_file (snd (get_or_compute_embedding env q s)) = (embedding_cache s)(q \<mapsto> v))) \<and>
   (embedding_cache s q = None \<and>
    (co_embed aenv q = Co_embed_rate_limited \<or> co_embed aenv q = Co_embed_error \<or>
     co_embed aenv q = Co_embeddings []) \<longrightarrow>
      get_embedding aenv q s = (JArr [], s\<lparr>calls := calls s @ [Co_embed q]\<rparr>)) \<and>
   (co_embed aenv (strip (question req)) = Co_embed_rate_limited \<or>
    co_embed aenv (strip (question req)) = Co_embed_error \<or>
    co_embed aenv (strip (question req)) = Co_embeddings [] \<longrightarrow>
      embedding_cache (snd (query_chatbot lib aenv req s)) = embedding_cache s \<and>
      cache_file (snd (query_chatbot lib aenv req s)) = cache_file s) \<and>
   (embedding_cache s q = None \<and> co_embed aenv q = Co_embeddings (v # rest) \<longrightarrow>
      embedding_cache (snd (get_embedding aenv q s)) = (embedding_cache s)(q \<mapsto> v) \<and>
      (app_cache_write aenv = Written \<longrightarrow>
         cache_file (snd (get_embedding aenv q s)) = (embedding_cache s)(q \<mapsto> v))) \<and>
   (attempt_vector resp = None \<longrightarrow>
      fst (embed_attempt resp w tx s) = None \<and>
      embedding_cache (snd (embed_attempt resp w tx s)) = embedding_cache s \<and>
      cache_file (snd (embed_attempt resp w tx s)) = cache_file s) \<and>
   (attempt_vector resp = Some v \<longrightarrow>
      embedding_cache (snd (embed_attempt resp w tx s)) = (embedding_cache s)(tx \<mapsto> v) \<and>
      (w = Written \<longrightarrow>
         fst (embed_attempt resp w tx s) = Some v \<and>
         cache_file (snd (embed_attempt resp w tx s)) = (embedding_cache s)(tx \<mapsto> v)))"
proof (intro conjI)
  show "embed_call_fails (embed_post env ts) \<or> embed_post env ts = Response 200 None \<or>
    embed_post env ts = Response 200 (Some (JObj kv)) \<and> unknown_embed_shape kv \<longrightarrow>
      \<not> embed_succeeded (fst (gemini_embed_texts env ts s))"
    using embed_call_fails_result [of env ts s] unknown_embed_shape_result [of env ts kv s]
    by (auto simp: gemini_embed_texts_def)
next
  let ?q = "strip (question req)"
  show "\<not> embed_succeeded (fst (gemini_embed_texts env [?q] s)) \<longrightarrow>
      embedding_cache (snd (query_route lib env req s)) = embedding_cache s \<and>
      cache_file (snd (query_route lib env req s)) = cache_file s"
  proof (intro impI, cases "embedding_cache s ?q")
    case None
    assume "\<not> embed_succeeded (fst (gemini_embed_texts env [?q] s))"
    then show "embedding_cache (snd (query_route lib env req s)) = embedding_cache s \<and>
      cache_file (snd (query_route lib env req s)) = cache_file s"
      using None by (simp add: query_route_cache get_or_compute_embedding_failure(1))
  next
    case (Some u)
    then show "embedding_cache (snd (query_route lib env req s)) = embedding_cache s \<and>
      cache_file (snd (query_route lib env req s)) = cache_file s"
      by (simp add: query_route_cache get_or_compute_embedding_hit)
  qed
next
  show "embedding_cache s q = None \<and>
    fst (gemini_embed_texts env [q] s) = Inr (Some (v # rest)) \<and> v \<noteq> JNull \<longrightarrow>
      embedding_cache (snd (get_or_compute_embedding env q s)) = (embedding_cache s)(q \<mapsto> v) \<and>
      (cache_write env = Written \<longrightarrow>
         cache_file (snd (get_or_compute_embedding env q s)) = (embedding_cache s)(q \<mapsto> v))"
    by (auto simp: get_or_compute_embedding_success save_cache_def split: write_outcome.split)
next
  show "embedding_cache s q = None \<and>
    (co_embed aenv q = Co_embed_rate_limited \<or> co_embed aenv q = Co_embed_error \<or>
     co_embed aenv q = Co_embeddings []) \<longrightarrow>
      get_embedding aenv q s = (JArr [], s\<lparr>calls := calls s @ [Co_embed q]\<rparr>)"
    using get_embedding_failed [of s q aenv] by blast
next
  let ?q = "strip (question req)"
  show "co_embed aenv ?q = Co_embed_rate_limited \<or> co_embed aenv ?q = Co_embed_error \<or>
    co_embed aenv ?q = Co_embeddings [] \<longrightarrow>
      embedding_cache (snd (query_chatbot lib aenv req s)) = embedding_cache s \<and>
      cache_file (snd (query_chatbot lib aenv req s)) = cache_file s"
  proof (intro impI, cases "embedding_cache s ?q")
    case None
    assume "co_embed aenv ?q = Co_embed_rate_limited \<or> co_embed aenv ?q = Co_embed_error \<or>
      co_embed aenv ?q = Co_embeddings []"
    then show "embedding_cache (snd (query_chatbot lib aenv req s)) = embedding_cache s \<and>
      cache_file (snd (query_chatbot lib aenv req s)) = cache_file s"
      using None by (simp add: query_chatbot_cache get_embedding_failed)
  next
    case (Some u)
    then show "embedding_cache (snd (query_chatbot lib aenv req s)) = embedding_cache s \<and>
      cache_file (snd (query_chatbot lib aenv req s)) = cache_file s"
      by (simp add: query_chatbot_cache get_embedding_hit)
  qed
next
  show "embedding_cache s q = None \<and> co_embed aenv q = Co_embeddings (v # rest) \<longrightarrow>
      embedding_cache (snd (get_embedding aenv q s)) = (embedding_cache s)(q \<mapsto> v) \<and>
      (app_cache_write aenv = Written \<longrightarrow>
         cache_file (snd (get_embedding aenv q s)) = (embedding_cache s)(q \<mapsto> v))"
    by (auto simp: get_embedding_def Let_def split: write_outcome.split)
next
  show "attempt_vector resp = None \<longrightarrow>
      fst (embed_attempt resp w tx s) = None \<and>
      embedding_cache (snd (embed_attempt resp w tx s)) = embedding_cache s \<and>
      cache_file (snd (embed_attempt resp w tx s)) = cache_file s"
    using embed_attempt_failure [of resp w tx s] by blast
next
  show "attempt_vector resp = Some v \<longrightarrow>
      embedding_cache (snd (embed_attempt resp w tx s)) = (embedding_cache s)(tx \<mapsto> v) \<and>
      (w = Written \<longrightarrow>
         fst (embed_attempt resp w tx s) = Some v \<and>
         cache_file (snd (embed_attempt resp w tx s)) = (embedding_cache s)(tx \<mapsto> v))"
    using embed_attempt_success [of resp v w tx s] by blast
qed


theorem failed_embedding_not_cached_witness:
  "embed_call_fails (embed_post limited_env [sample_q]) \<and>
   \<not> embed_succeeded (fst (gemini_embed_texts limited_env [sample_q] state0)) \<and>
   \<not> embed_succeeded (fst (gemini_embed_texts limited_env [strip (question plain_request)] state0)) \<and>
   embedding_cache (snd (query_route sample_lib limited_env plain_request state0)) = embedding_cache state0 \<and>
   cache_file (snd (query_route sample_lib limited_env plain_request state0)) = cache_file state0 \<and>
   embedding_cache state0 sample_q = None \<and>
   fst (gemini_embed_texts hits_env [sample_q] state0) = Inr (Some [sample_vec]) \<and>
   sample_vec \<noteq> JNull \<and>
   cache_write hits_env = Written \<and>
   embedding_cache (snd (get_or_compute_embedding hits_env sample_q state0)) =
     (embedding_cache state0)(sample_q \<mapsto> sample_vec) \<and>
   cache_file (snd (get_or_compute_embedding hits_env sample_q state0)) =
     (embedding_cache state0)(sample_q \<mapsto> sample_vec) \<and>
   co_embed limited_app_env sample_q = Co_embed_rate_limited \<and>
   get_embedding limited_app_env sample_q state0 =
     (JArr [], state0\<lparr>calls := calls state0 @ [Co_embed sample_q]\<rparr>) \<and>
   co_embed limited_app_env (strip (question plain_request)) = Co_embed_rate_limited \<and>
   embedding_cache (snd (query_chatbot sample_lib limited_app_env plain_request state0)) =
     embedding_cache state0 \<and>
   cache_file (snd (query_chatbot sample_lib limited_app_env plain_request state0)) = cache_file state0 \<and>
   co_embed hits_app_env sample_q = Co_embeddings [sample_vec] \<and>
   app_cache_write hits_app_env = Written \<and>
   embedding_cache (snd (get_embedding hits_app_env sample_q state0)) =
     (embedding_cache state0)(sample_q \<mapsto> sample_vec) \<and>
   cache_file (snd (get_embedding hits_app_env sample_q state0)) =
     (embedding_cache state0)(sample_q \<mapsto> sample_vec) \<and>
   attempt_vector rate_limited = None \<and>
   fst (embed_attempt rate_limited Written sample_q state0) = None \<and>
   embedding_cache (snd (embed_attempt rate_limited Written sample_q state0)) = embedding_cache state0 \<and>
   cache_file (snd (embed_attempt rate_limited Written sample_q state0)) = cache_file state0 \<and>
   attempt_vector (Response 200 (Some (JObj [(py ''embedding'', sample_vec)]))) = Some sample_vec \<and>
   fst (embed_attempt (Response 200 (Some (JObj [(py ''embedding'', sample_vec)]))) Written sample_q state0) =
     Some sample_vec \<and>
   cache_file (snd (embed_attempt (Response 200 (Some (JObj [(py ''embedding'', sample_vec)]))) Written
                      sample_q state0)) =
     (embedding_cache state0)(sample_q \<mapsto> sample_vec)"
proof -
  note A = failed_embedding_not_cached [where env = limited_env and ts = "[sample_q]" and s = state0
      and req = plain_request and lib = sample_lib and aenv = limited_app_env and q = sample_q
      and resp = rate_limited and w = Written and tx = sample_q]
  note B = failed_embedding_not_cached [where env = hits_env and s = state0 and q = sample_q
      and v = sample_vec and rest = "[]" and aenv = hits_app_env
      and resp = "Response 200 (Some (JObj [(py ''embedding'', sample_vec)]))" and w = Written
      and tx = sample_q]
  have f: "embed_call_fails (embed_post limited_env [sample_q])" by (rule limited_fails)
  have n1: "\<not> embed_succeeded (fst (gemini_embed_texts limited_env [sample_q] state0))"
    by (rule A [THEN conjunct1, rule_format]) (simp add: f)
  have n2: "\<not> embed_succeeded (fst (gemini_embed_texts limited_env [strip (question plain_request)] state0))"
    using n1 by (simp add: question_plain)
  note c2 = A [THEN conjunct2, THEN conjunct1, rule_format, OF n2]
  have h3: "embedding_cache state0 sample_q = None \<and>
      fst (gemini_embed_texts hits_env [sample_q] state0) = Inr (Some [sample_vec]) \<and> sample_vec \<noteq> JNull"
    by (simp add: state0_miss hits_embed sample_vec_not_null)
  have w: "cache_write hits_env = Written" "app_cache_write hits_app_env = Written"
    by (simp_all add: hits_env_def hits_app_env_def sample_main_env_def sample_app_env_def)
  note c3 = B [THEN conjunct2, THEN conjunct2, THEN conjunct1, rule_format, OF h3]
  note c3w = c3 [THEN conjunct2, rule_format, OF w(1)]
  have h4: "embedding_cache state0 sample_q = None \<and>
      (co_embed limited_app_env sample_q = Co_embed_rate_limited \<or>
       co_embed limited_app_env sample_q = Co_embed_error \<or>
       co_embed limited_app_env sample_q = Co_embeddings [])"
    by (simp add: state0_miss limited_app_embed)
  note c4 = A [THEN conjunct2, THEN conjunct2, THEN conjunct2, THEN conjunct1, rule_format, OF h4]
  have h5: "co_embed limited_app_env (strip (question plain_request)) = Co_embed_rate_limited \<or>
      co_embed limited_app_env (strip (question plain_request)) = Co_embed_error \<or>
      co_embed limited_app_env (strip (question plain_request)) = Co_embeddings []"
    by (simp add: limited_app_embed)
  note c5 = A [THEN conjunct2, THEN conjunct2, THEN conjunct2, THEN conjunct2, THEN conjunct1, rule_format, OF h5]
  have c: "co_embed hits_app_env sample_q = Co_embeddings [sample_vec]"
    by (simp add: hits_app_env_def sample_app_env_def)
  have h6: "embedding_cache state0 sample_q = None \<and> co_embed hits_app_env sample_q = Co_embeddings [sample_vec]"
    by (simp add: state0_miss c)
  note c6 = B [THEN conjunct2, THEN conjunct2, THEN conjunct2, THEN conjunct2, THEN conjunct2, THEN conjunct1, rule_format, OF h6]
  note c6w = c6 [THEN conjunct2, rule_format, OF w(2)]
  have a1: "attempt_vector rate_limited = None" by (simp add: rate_limited_def)
  have a2: "attempt_vector (Response 200 (Some (JObj [(py ''embedding'', sample_vec)]))) = Some sample_vec"
    by (simp add: dict_get_def sample_vec_def)
  note c7 = A [THEN conjunct2, THEN conjunct2, THEN conjunct2, THEN conjunct2, THEN conjunct2, THEN conjunct2, THEN conjunct1, rule_format, OF a1]
  note c8 = B [THEN conjunct2, THEN conjunct2, THEN conjunct2, THEN conjunct2, THEN conjunct2, THEN conjunct2, THEN conjunct2, rule_format, OF a2]
  note c8w = c8 [THEN conjunct2, rule_format, OF refl]
  from f n1 n2 c2 h3 w c3 c3w h4 c4 h5 c5 c h6 c6 c6w a1 a2 c7 c8 c8w limited_app_embed
  show ?thesis by blast
qed

section \<open>An unrecognised chat response\<close>





text \<open>
  The guards of the branches decide what counts as a known shape here. A body that
  passes a guard and is malformed inside the branch is a different matter: when the
  first element of \<open>choices\<close> is not an object, \<open>first.get\<close> raises and the function
  returns nothing.
\<close>

lemma malformed_choice_raises:
  "parse_chat_response lib (JObj [(py ''choices'', JArr [JInt 5])]) = Inl AttributeError"
  by (simp add: parse_chat_response_def or_else_def vertex_text_def openai_text_def
        first_choice_text_def)

section \<open>Rate limiting of the embedding provider\<close>

text \<open>
  Claim C6. On a rate limit, \<open>get_embedding\<close> of app.py makes its one call and returns
  the empty list at once, without sleeping or retrying. \<open>get_gemini_embedding\<close> of
  embeddings.py, for a text that is not cached, sleeps 60 seconds after each answer 429
  and asks again: after \<open>k\<close> such answers followed by a successful one it returns that
  embedding, having made \<open>k + 1\<close> requests and slept \<open>k\<close> times 60 seconds. Whenever it
  returns, the value is a true (non-empty) embedding taken from a successful request,
  never a failure value; and when the provider answers 429 for ever it does not return.
\<close>

theorem rate_limit_policies:
  "(embedding_cache s t = None \<and> co_embed aenv t = Co_embed_rate_limited \<longrightarrow>
      get_embedding aenv t s = (JArr [], s\<lparr>calls := calls s @ [Co_embed t]\<rparr>)) \<and>
   (embedding_cache s t = None \<and> (\<forall>i<k. \<exists>b. gem_post env i = Response 429 b) \<and>
    attempt_vector (gem_post env k) = Some v \<and> gem_write env k = Written \<longrightarrow>
      get_gemini_embedding env t s =
        Some (v, s\<lparr>calls := calls s @ concat (replicate k [Embed_text_post t, Sleep 60]) @
                              [Embed_text_post t],
                    embedding_cache := (embedding_cache s)(t \<mapsto> v),
                    cache_file := (embedding_cache s)(t \<mapsto> v)\<rparr>)) \<and>
   (embedding_cache s t = None \<and> get_gemini_embedding env t s = Some (v, s') \<longrightarrow>
      truthy v \<and> (\<exists>m. attempt_vector (gem_post env m) = Some v \<and> gem_write env m = Written)) \<and>
   (embedding_cache s t = None \<and> (\<forall>m. \<exists>b. gem_post env m = Response 429 b) \<longrightarrow>
      get_gemini_embedding env t s = None)"
proof (intro conjI impI)
  assume "embedding_cache s t = None \<and> co_embed aenv t = Co_embed_rate_limited"
  then show "get_embedding aenv t s = (JArr [], s\<lparr>calls := calls s @ [Co_embed t]\<rparr>)"
    by (simp add: get_embedding_failed)
next
  assume a: "embedding_cache s t = None \<and> (\<forall>i<k. \<exists>b. gem_post env i = Response 429 b) \<and>
    attempt_vector (gem_post env k) = Some v \<and> gem_write env k = Written"
  let ?s1 = "s\<lparr>calls := calls s @ concat (replicate k [Embed_text_post t, Sleep 60])\<rparr>"
  have "embed_loop env t 0 s = embed_loop env t (0 + k) ?s1"
    using a by (intro embed_loop_rate_limited) simp
  also have "\<dots> = Some (v, ?s1\<lparr>calls := calls ?s1 @ [Embed_text_post t],
                 embedding_cache := (embedding_cache ?s1)(t \<mapsto> v),
                 cache_file := (embedding_cache ?s1)(t \<mapsto> v)\<rparr>)"
    using a by (simp add: embed_loop_success)
  finally show "get_gemini_embedding env t s =
        Some (v, s\<lparr>calls := calls s @ concat (replicate k [Embed_text_post t, Sleep 60]) @
                              [Embed_text_post t],
                    embedding_cache := (embedding_cache s)(t \<mapsto> v),
                    cache_file := (embedding_cache s)(t \<mapsto> v)\<rparr>)"
    using a get_gemini_embedding_miss [of s t env] by simp
next
  assume a: "embedding_cache s t = None \<and> get_gemini_embedding env t s = Some (v, s')"
  then have "embed_loop env t 0 s = Some (v, s')"
    using get_gemini_embedding_miss [of s t env] by simp
  then have m: "\<exists>m. attempt_vector (gem_post env m) = Some v \<and> gem_write env m = Written"
    by (rule embed_loop_returns)
  then show "truthy v" using attempt_vector_truthy by blast
  from m show "\<exists>m. attempt_vector (gem_post env m) = Some v \<and> gem_write env m = Written" .
next
  assume a: "embedding_cache s t = None \<and> (\<forall>m. \<exists>b. gem_post env m = Response 429 b)"
  have "embed_loop env t 0 s = None"
  proof (cases "embed_loop env t 0 s")
    case (Some y)
    then obtain m where m: "attempt_vector (gem_post env m) = Some (fst y)"
      using embed_loop_returns_fst by blast
    from a obtain b where "gem_post env m = Response 429 b" by blast
    with m show ?thesis by (cases b rule: option.exhaust; cases "the b") simp_all
  qed simp
  then show "get_gemini_embedding env t s = None"
    using a get_gemini_embedding_miss [of s t env] by simp
qed


theorem rate_limit_policies_witness:
  "embedding_cache state0 sample_q = None \<and>
   co_embed limited_app_env sample_q = Co_embed_rate_limited \<and>
   get_embedding limited_app_env sample_q state0 =
     (JArr [], state0\<lparr>calls := calls state0 @ [Co_embed sample_q]\<rparr>) \<and>
   gem_post sample_script_env 0 = Response 429 None \<and>
   gem_post sample_script_env 1 = Response 429 None \<and>
   attempt_vector (gem_post sample_script_env 2) = Some sample_vec \<and>
   gem_write sample_script_env 2 = Written \<and>
   get_gemini_embedding sample_script_env sample_q state0 =
     Some (sample_vec,
           state0\<lparr>calls := calls state0 @ concat (replicate 2 [Embed_text_post sample_q, Sleep 60]) @
                                 [Embed_text_post sample_q],
                  embedding_cache := (embedding_cache state0)(sample_q \<mapsto> sample_vec),
                  cache_file := (embedding_cache state0)(sample_q \<mapsto> sample_vec)\<rparr>) \<and>
   truthy sample_vec \<and>
   (\<forall>m. gem_post stuck_script_env m = Response 429 None) \<and>
   get_gemini_embedding stuck_script_env sample_q state0 = None"
proof -
  let ?s' = "state0\<lparr>calls := calls state0 @ concat (replicate 2 [Embed_text_post sample_q, Sleep 60]) @
                                 [Embed_text_post sample_q],
                  embedding_cache := (embedding_cache state0)(sample_q \<mapsto> sample_vec),
                  cache_file := (embedding_cache state0)(sample_q \<mapsto> sample_vec)\<rparr>"
  note A = rate_limit_policies [where s = state0 and t = sample_q and aenv = limited_app_env
      and env = sample_script_env and k = 2 and v = sample_vec and s' = ?s']
  note B = rate_limit_policies [where s = state0 and t = sample_q and env = stuck_script_env]
  have h1: "embedding_cache state0 sample_q = None \<and> co_embed limited_app_env sample_q = Co_embed_rate_limited"
    by (simp add: state0_miss limited_app_embed)
  note c1 = A [THEN conjunct1, rule_format, OF h1]
  have lt2: "\<exists>b. gem_post sample_script_env i = Response 429 b" if "i < 2" for i
  proof -
    from that have "i = 0 \<or> i = 1" by auto
    then show ?thesis using sample_script_posts(1,2) by auto
  qed
  have h2: "embedding_cache state0 sample_q = None \<and>
      (\<forall>i<2. \<exists>b. gem_post sample_script_env i = Response 429 b) \<and>
      attempt_vector (gem_post sample_script_env 2) = Some sample_vec \<and>
      gem_write sample_script_env 2 = Written"
    using lt2 by (simp add: state0_miss sample_script_posts)
  note c2 = A [THEN conjunct2, THEN conjunct1, rule_format, OF h2]
  have h3: "embedding_cache state0 sample_q = None \<and>
      get_gemini_embedding sample_script_env sample_q state0 = Some (sample_vec, ?s')"
    using c2 by (simp add: state0_miss)
  note c3 = A [THEN conjunct2, THEN conjunct2, THEN conjunct1, rule_format, OF h3]
  have h4: "embedding_cache state0 sample_q = None \<and>
      (\<forall>m. \<exists>b. gem_post stuck_script_env m = Response 429 b)"
    by (simp add: state0_miss stuck_script_posts)
  note c4 = B [THEN conjunct2, THEN conjunct2, THEN conjunct2, rule_format, OF h4]
  from h1 c1 sample_script_posts(1,2,3) sample_script_posts(4) [of 2] c2 c3 stuck_script_posts c4
  show ?thesis by blast
qed
end
